theory Spec2Isabelle
  imports Complex_Main
begin

section \<open>The planet camera of openglobus (og/camera/PlanetCamera)\<close>

text \<open>
  A shallow embedding of the class \<^verbatim>\<open>PlanetCamera\<close>: the geodetic position update, the
  altitude setter, the flight planner \<^verbatim>\<open>flyCartesian\<close>, and the flight executor
  \<^verbatim>\<open>prepareFrame\<close> / \<^verbatim>\<open>stopFlying\<close>.

  JavaScript numbers are modelled as \<^typ>\<open>real\<close>: every equation below is one of exact
  arithmetic, and rounding, infinities and NaN are outside the model. Where the source
  divides by a length that is zero (JavaScript: NaN components), HOL's \<open>1 / 0 = 0\<close>
  gives the zero vector instead; where a theorem needs a normalised vector to be a unit
  vector, it assumes that the vector is not zero.

  Calls that leave the camera (the three lock objects of the planet, the callbacks, the
  view-change event) are recorded as a list of events in the order in which the source
  makes them. A raise of the source (\<^verbatim>\<open>TypeError\<close> on reading a field of
  \<^verbatim>\<open>undefined\<close>) is the value \<open>Inl TypeError\<close>.
\<close>

subsection \<open>Vectors (og/math/Vec3), rays and geodetic coordinates (og/LonLat)\<close>

datatype vec3 = Vec3 (vx: real) (vy: real) (vz: real)

text \<open>
  Modelled from the spec: the class \<^verbatim>\<open>Vec3\<close> (og/math/Vec3.js) is not among the sources;
  the spec treats the vector primitives as given (section 1) and names them in section 4.3:
  the linear blend of two vectors, \<open>normalize\<close>, the cross product, \<open>n = normalize(eye - look)\<close>.
  The operations are the usual componentwise ones. \<^verbatim>\<open>smerp(v2, d)\<close> is the blend that
  weighs the receiver with \<open>d\<close> and the argument with \<open>1 - d\<close>, as the height blend of
  \<^verbatim>\<open>flyCartesian\<close> does with the start and end heights.
\<close>

definition ZERO :: vec3 where
  "ZERO = Vec3 0 0 0"

definition UP :: vec3 where
  "UP = Vec3 0 1 0"

fun add :: "vec3 \<Rightarrow> vec3 \<Rightarrow> vec3" where
  "add (Vec3 a b c) (Vec3 a' b' c') = Vec3 (a + a') (b + b') (c + c')"

fun sub :: "vec3 \<Rightarrow> vec3 \<Rightarrow> vec3" where
  "sub (Vec3 a b c) (Vec3 a' b' c') = Vec3 (a - a') (b - b') (c - c')"

fun scale :: "vec3 \<Rightarrow> real \<Rightarrow> vec3" where
  "scale (Vec3 a b c) s = Vec3 (a * s) (b * s) (c * s)"

fun negateTo :: "vec3 \<Rightarrow> vec3" where
  "negateTo (Vec3 a b c) = Vec3 (- a) (- b) (- c)"

fun dot :: "vec3 \<Rightarrow> vec3 \<Rightarrow> real" where
  "dot (Vec3 a b c) (Vec3 a' b' c') = a * a' + b * b' + c * c'"

fun cross :: "vec3 \<Rightarrow> vec3 \<Rightarrow> vec3" where
  "cross (Vec3 a b c) (Vec3 a' b' c') =
     Vec3 (b * c' - c * b') (c * a' - a * c') (a * b' - b * a')"

fun length3 :: "vec3 \<Rightarrow> real" where
  "length3 (Vec3 a b c) = sqrt (a * a + b * b + c * c)"

definition normal :: "vec3 \<Rightarrow> vec3" where
  "normal w = scale w (1 / length3 w)"

fun smerp :: "vec3 \<Rightarrow> vec3 \<Rightarrow> real \<Rightarrow> vec3" where
  "smerp (Vec3 a b c) (Vec3 a' b' c') d =
     Vec3 (a * d + a' * (1 - d)) (b * d + b' * (1 - d)) (c * d + c' * (1 - d))"

record ray =
  origin :: vec3
  direction :: vec3

text \<open>
  Modelled from the spec: the class \<^verbatim>\<open>LonLat\<close> (og/LonLat.js) is not among the sources;
  a geodetic position is longitude, latitude and height (spec, section 3). A height that
  is not given to the constructor is 0.
\<close>

record lonlat =
  lon :: real
  lat :: real
  height :: real

definition LonLat :: "real \<Rightarrow> real \<Rightarrow> real \<Rightarrow> lonlat" where
  "LonLat lo la h = \<lparr>lon = lo, lat = la, height = h\<rparr>"

subsection \<open>The collaborators of the camera\<close>

text \<open>
  The ellipsoid, the mercator module, the ray intersection of the planet and the terrain
  sampling of a quad-tree node are not among the sources (spec, section 6); they are
  parameters of the model. \<open>getRayIntersectionEllipsoid\<close> answers \<open>None\<close> where the source
  answers no point, and \<open>getTerrainPoint\<close> returns the altitude together with the
  position and terrain point that the source writes through its arguments.
\<close>

type_synonym segment = nat

record planet =
  lonLatToCartesian :: "lonlat \<Rightarrow> vec3"
  cartesianToLonLat :: "vec3 \<Rightarrow> lonlat"
  forwardMercator :: "lonlat \<Rightarrow> lonlat"
  MAX_LAT :: real
  getRayIntersectionEllipsoid :: "ray \<Rightarrow> vec3 option"
  getTerrainPoint :: "segment \<Rightarrow> vec3 \<Rightarrow> lonlat \<Rightarrow> vec3 \<Rightarrow> real \<times> lonlat \<times> vec3"

type_synonym key = nat
type_synonym callback = nat

datatype subsystem = LayerLock | TerrainLock | NormalMapCreator

datatype event =
    Lock subsystem key
  | Free subsystem key
  | StartCallback callback
  | CompleteCallback callback
  | ViewChange

datatype error = TypeError

subsection \<open>The camera state\<close>

record frame =
  f_eye :: vec3
  f_n :: vec3
  f_u :: vec3
  f_v :: vec3

record camera =
  eye :: vec3
  cam_u :: vec3
  cam_v :: vec3
  cam_n :: vec3
  minAltitude :: real
  lonLat :: lonlat
  lonLatMerc :: lonlat
  terrainAltitude :: real
  terrainPoint :: vec3
  insideSegment :: "segment option"
  slope :: real
  eyeNorm :: vec3
  insideSegmentPosition :: lonlat
  keyLock :: key
  framesArr :: "frame list"
  framesCounter :: int
  numFrames :: nat
  completeCallback :: "callback option"
  flying :: bool

subsection \<open>Callbacks and observers\<close>

text \<open>
  A start callback, a completion callback and an observer of the view-change event are
  JavaScript functions: while one runs it can call the methods of the camera. A callback
  is named by a number, and what the functions do is given by three handlers, each a
  function from the camera as it is when the function is called to the camera as the
  function leaves it and the events of the calls it has made (or to a raise). The
  handlers \<open>inert\<close> make no call.
\<close>

record handlers =
  onStart :: "callback \<Rightarrow> camera \<Rightarrow> error + camera \<times> event list"
  onComplete :: "callback \<Rightarrow> camera \<Rightarrow> error + camera \<times> event list"
  onViewChange :: "camera \<Rightarrow> error + camera \<times> event list"

definition inert :: handlers where
  "inert = \<lparr>onStart = (\<lambda>s c. Inr (c, [])), onComplete = (\<lambda>cb c. Inr (c, [])),
            onViewChange = (\<lambda>c. Inr (c, []))\<rparr>"

text \<open>
  Calling a function: the event of the call, then what the function does. Dispatching the
  view-change event after the events \<open>ev\<close>: what the observers do.
\<close>

definition call_handler ::
  "event \<Rightarrow> (camera \<Rightarrow> error + camera \<times> event list) \<Rightarrow> camera \<Rightarrow> error + camera \<times> event list" where
  "call_handler e h c = (case h c of Inl x \<Rightarrow> Inl x | Inr (c', ev) \<Rightarrow> Inr (c', e # ev))"

definition dispatch :: "handlers \<Rightarrow> camera \<times> event list \<Rightarrow> error + camera \<times> event list" where
  "dispatch H r =
     (case onViewChange H (fst r) of Inl x \<Rightarrow> Inl x | Inr (c', ev) \<Rightarrow> Inr (c', snd r @ ev))"

subsection \<open>update, updateGeodeticPosition, setAltitude, getAltitude\<close>

definition updateGeodeticPosition :: "planet \<Rightarrow> camera \<Rightarrow> camera" where
  "updateGeodeticPosition P c =
     (let c1 = c\<lparr>lonLat := cartesianToLonLat P (eye c)\<rparr>
      in if \<bar>lat (lonLat c1)\<bar> \<le> MAX_LAT P
         then c1\<lparr>lonLatMerc := forwardMercator P (lonLat c1)\<rparr>
         else c1)"

text \<open>
  \<^verbatim>\<open>update\<close>: the view, projection-view and normal matrices and the frustum belong to the
  base class \<^verbatim>\<open>Camera\<close> and the renderer and are left out; what remains is the geodetic
  update, \<^verbatim>\<open>eyeNorm\<close>, \<^verbatim>\<open>slope\<close> and the dispatch of the view-change event. The dispatch is
  the last statement of \<^verbatim>\<open>update\<close> and is recorded as the event \<open>ViewChange\<close>; what the
  observers do to the camera during it is added by \<open>dispatch\<close> in \<^verbatim>\<open>prepareFrame\<close>, right
  after \<^verbatim>\<open>update\<close> or \<^verbatim>\<open>setAltitude\<close> returns. \<^verbatim>\<open>setAltitude\<close> and \<^verbatim>\<open>setLonLat\<close> by
  themselves are the operations up to and including the dispatch, without the calls of
  the observers.
\<close>

definition update :: "planet \<Rightarrow> camera \<Rightarrow> camera \<times> event list" where
  "update P c =
     (let c1 = updateGeodeticPosition P c;
          c2 = c1\<lparr>eyeNorm := normal (eye c1)\<rparr>;
          c3 = c2\<lparr>slope := dot (cam_n c2) (eyeNorm c2)\<rparr>
      in (c3, [ViewChange]))"

definition setAltitude :: "planet \<Rightarrow> camera \<Rightarrow> real \<Rightarrow> camera \<times> event list" where
  "setAltitude P c alt =
     (let n = normal (eye c);
          t = terrainPoint c;
          c1 = c\<lparr>eye := Vec3 (vx n * alt + vx t) (vy n * alt + vy t) (vz n * alt + vz t)\<rparr>;
          c2 = c1\<lparr>terrainAltitude := alt\<rparr>
      in update P c2)"

definition getAltitude :: "camera \<Rightarrow> real" where
  "getAltitude c = terrainAltitude c"

subsection \<open>stopFlying\<close>

definition stopFlying :: "camera \<Rightarrow> camera \<times> event list" where
  "stopFlying c =
     (c\<lparr>flying := False, framesArr := [], framesCounter := - 1\<rparr>,
      [Free LayerLock (keyLock c), Free TerrainLock (keyLock c),
       Free NormalMapCreator (keyLock c)])"

subsection \<open>The flight planner: flyCartesian\<close>

text \<open>
  Modelled from the spec: the constant \<^verbatim>\<open>math.SQRT_HALF\<close> (og/math.js) is not among the
  sources; the spec's bulge factor is \<open>hM = sqrt(max(sep,0)/2)\<close>, so the constant is the square
  root of one half.
\<close>

definition SQRT_HALF :: real where
  "SQRT_HALF = sqrt (1 / 2)"

text \<open>The easing parameter of frame \<open>i\<close>: the first three statements of the loop body.\<close>

definition ease_d :: "nat \<Rightarrow> nat \<Rightarrow> real" where
  "ease_d nf i =
     (let d = 1 - real i / real nf;
          d = d * d * (3 - 2 * d);
          d = d * d
      in d)"

definition fly_hM_a :: "vec3 \<Rightarrow> vec3 \<Rightarrow> real" where
  "fly_hM_a ga gb =
     (let an = normal ga;
          bn = normal gb;
          anbn = 1 - dot an bn
      in SQRT_HALF * sqrt (if anbn > 0 then anbn else 0))"

definition fly_max_h :: "real \<Rightarrow> real \<Rightarrow> real \<Rightarrow> real" where
  "fly_max_h h_a h_b hM_a =
     (let maxHeight = 6639613;
          currMaxHeight = max h_a h_b;
          maxHeight = (if currMaxHeight > maxHeight then currMaxHeight else maxHeight)
      in currMaxHeight + 2.5 * hM_a * (maxHeight - currMaxHeight))"

text \<open>The values that \<^verbatim>\<open>flyCartesian\<close> computes before its loop and reads inside it.\<close>

record plan =
  ground_a :: vec3
  ground_b :: vec3
  v_a :: vec3
  n_a :: vec3
  v_b :: vec3
  n_b :: vec3
  height_a :: real
  height_b :: real
  max_h :: real

text \<open>
  The loop body after the easing parameter \<open>d\<close>. \<^verbatim>\<open>ground_i.addA\<close> on a missing
  intersection point raises.
\<close>

definition fly_frame :: "planet \<Rightarrow> plan \<Rightarrow> real \<Rightarrow> error + frame" where
  "fly_frame P pl d =
     (let g_i = normal (smerp (ground_a pl) (ground_b pl) d)
      in case getRayIntersectionEllipsoid P \<lparr>origin = ZERO, direction = g_i\<rparr> of
           None \<Rightarrow> Inl TypeError
         | Some ground_i \<Rightarrow>
             (let t = 1 - d;
                  height_i = height_a pl * d * d * d + max_h pl * 3 * d * d * t
                             + max_h pl * 3 * d * t * t + height_b pl * t * t * t;
                  eye_i = add ground_i (scale g_i height_i);
                  up_i = smerp (v_a pl) (v_b pl) d;
                  look_i = add eye_i (negateTo (smerp (n_a pl) (n_b pl) d));
                  n = Vec3 (vx eye_i - vx look_i) (vy eye_i - vy look_i) (vz eye_i - vz look_i);
                  u = cross up_i n;
                  n = normal n;
                  u = normal u;
                  v = cross n u
              in Inr \<lparr>f_eye = eye_i, f_n = n, f_u = u, f_v = v\<rparr>))"

text \<open>
  \<^verbatim>\<open>this._framesArr[i] = ...\<close>: an assignment at the length of a JavaScript array
  appends. \<^verbatim>\<open>stopFlying\<close> has emptied the array and \<open>i\<close> counts from 0, so every
  write of the loop is at the length (lemma \<open>fly_loop_frames\<close>); a write beyond the
  length, which would leave holes, does not occur.
\<close>

definition arr_put :: "'a list \<Rightarrow> nat \<Rightarrow> 'a \<Rightarrow> 'a list" where
  "arr_put xs i a = (if i < length xs then xs[i := a] else xs @ [a])"

function fly_loop :: "planet \<Rightarrow> plan \<Rightarrow> nat \<Rightarrow> nat \<Rightarrow> frame list \<Rightarrow> error + frame list" where
  "fly_loop P pl nf i arr =
     (if i \<le> nf
      then (case fly_frame P pl (ease_d nf i) of
              Inl e \<Rightarrow> Inl e
            | Inr f \<Rightarrow> fly_loop P pl nf (Suc i) (arr_put arr i f))
      else Inr arr)"
  by pat_completeness auto
termination
  by (relation "measure (\<lambda>(P, pl, nf, i, arr). Suc nf - i)") auto

datatype look_arg = LookVec vec3 | LookLonLat lonlat

definition fly_plan :: "planet \<Rightarrow> camera \<Rightarrow> vec3 \<Rightarrow> look_arg option \<Rightarrow> vec3 option \<Rightarrow> plan" where
  "fly_plan P c cartesian look up =
     (let look = (case look of None \<Rightarrow> LookVec ZERO | Some l \<Rightarrow> l);
          look = (case look of LookLonLat ll \<Rightarrow> lonLatToCartesian P ll | LookVec w \<Rightarrow> w);
          ground_a = lonLatToCartesian P (LonLat (lon (lonLat c)) (lat (lonLat c)) 0);
          v_a = cam_v c;
          n_a = cam_n c;
          lonlat_b = cartesianToLonLat P cartesian;
          up_b = (case up of None \<Rightarrow> UP | Some w \<Rightarrow> w);
          ground_b = lonLatToCartesian P (LonLat (lon lonlat_b) (lat lonlat_b) 0);
          eye_b = cartesian;
          n_b = sub eye_b look;
          u_b = cross up_b n_b;
          n_b = normal n_b;
          u_b = normal u_b;
          v_b = cross n_b u_b;
          hM_a = fly_hM_a ground_a ground_b;
          max_h = fly_max_h (height (lonLat c)) (height lonlat_b) hM_a
      in \<lparr>ground_a = ground_a, ground_b = ground_b, v_a = v_a, n_a = n_a, v_b = v_b,
          n_b = n_b, height_a = height (lonLat c), height_b = height lonlat_b,
          max_h = max_h\<rparr>)"

text \<open>
  \<^verbatim>\<open>flyCartesian\<close>: \<^verbatim>\<open>stopFlying\<close>, the completion callback stored, the start callback
  called (on the camera as it is then), the plan computed from the camera as the start
  callback has left it, and the frames written from index 0 on.
\<close>

definition flyCartesian ::
  "handlers \<Rightarrow> planet \<Rightarrow> camera \<Rightarrow> vec3 \<Rightarrow> look_arg option \<Rightarrow> vec3 option \<Rightarrow> callback option
     \<Rightarrow> callback option \<Rightarrow> error + camera \<times> event list" where
  "flyCartesian H P c cartesian look up completeCallback' startCallback =
     (let (c1, ev_stop) = stopFlying c;
          c2 = c1\<lparr>completeCallback := completeCallback'\<rparr>
      in case (case startCallback of
                 Some s \<Rightarrow> call_handler (StartCallback s) (onStart H s) c2
               | None \<Rightarrow> Inr (c2, [])) of
           Inl e \<Rightarrow> Inl e
         | Inr (c3, ev_start) \<Rightarrow>
             (let pl = fly_plan P c3 cartesian look up
              in case fly_loop P pl (numFrames c3) 0 (framesArr c3) of
                   Inl e \<Rightarrow> Inl e
                 | Inr arr \<Rightarrow>
                     Inr (c3\<lparr>framesArr := arr, framesCounter := int (numFrames c3),
                             flying := True\<rparr>,
                          ev_stop @ ev_start)))"

text \<open>\<^verbatim>\<open>a || b\<close> on numbers: \<open>a\<close> unless it is 0 (NaN is outside the model).\<close>

definition js_or :: "real \<Rightarrow> real \<Rightarrow> real" where
  "js_or a b = (if a = 0 then b else a)"


subsection \<open>The flight executor: prepareFrame\<close>

text \<open>Reading \<^verbatim>\<open>arr[c]\<close>: \<open>None\<close> is JavaScript's \<^verbatim>\<open>undefined\<close>.\<close>

definition arr_get :: "'a list \<Rightarrow> int \<Rightarrow> 'a option" where
  "arr_get xs j = (if 0 \<le> j \<and> j < int (length xs) then Some (xs ! nat j) else None)"

text \<open>
  \<^verbatim>\<open>prepareFrame\<close>. The flying flag is read once, at the start. In a flight: the three
  locks; the pose of the frame under the cursor; \<^verbatim>\<open>update\<close>, whose dispatch of the
  view-change event runs the observers; the step of the cursor; and, when the cursor has
  gone below zero, the end of the flight: \<^verbatim>\<open>stopFlying\<close>, then the call of the stored
  completion callback, and only after the callback has returned the clearing of the
  stored callback (\<^verbatim>\<open>this._completeCallback(); this._completeCallback = null;\<close>).
\<close>

definition prepareFrame :: "handlers \<Rightarrow> planet \<Rightarrow> camera \<Rightarrow> error + camera \<times> event list" where
  "prepareFrame H P c =
     (if flying c then
        (let ci = int (numFrames c) - framesCounter c;
             ev_lock = [Lock LayerLock (keyLock c), Lock TerrainLock (keyLock c),
                        Lock NormalMapCreator (keyLock c)]
         in case arr_get (framesArr c) ci of
              None \<Rightarrow> Inl TypeError
            | Some f \<Rightarrow>
                (let c1 = c\<lparr>eye := f_eye f, cam_u := f_u f, cam_v := f_v f, cam_n := f_n f\<rparr>
                 in case dispatch H (update P c1) of
                      Inl e \<Rightarrow> Inl e
                    | Inr (c2, ev_upd) \<Rightarrow>
                        (let c3 = c2\<lparr>framesCounter := framesCounter c2 - 1\<rparr>
                         in if framesCounter c3 < 0
                            then (let (c4, ev_stop) = stopFlying c3
                                  in case completeCallback c4 of
                                       Some cb \<Rightarrow>
                                         (case call_handler (CompleteCallback cb)
                                                 (onComplete H cb) c4 of
                                            Inl e \<Rightarrow> Inl e
                                          | Inr (c5, ev_cb) \<Rightarrow>
                                              Inr (c5\<lparr>completeCallback := None\<rparr>,
                                                   ev_lock @ ev_upd @ ev_stop @ ev_cb))
                                     | None \<Rightarrow> Inr (c4, ev_lock @ ev_upd @ ev_stop))
                            else Inr (c3, ev_lock @ ev_upd))))
      else
        (let c1 = c\<lparr>terrainAltitude := height (lonLat c)\<rparr>
         in case insideSegment c1 of
              Some seg \<Rightarrow>
                if height (lonLat c1) < 1000000
                then (let (alt, pos, tp) = getTerrainPoint P seg (eye c1)
                                             (insideSegmentPosition c1) (terrainPoint c1);
                          c2 = c1\<lparr>terrainAltitude := alt, insideSegmentPosition := pos,
                                  terrainPoint := tp\<rparr>
                      in if terrainAltitude c2 < minAltitude c2
                         then dispatch H (setAltitude P c2 (minAltitude c2))
                         else Inr (c2, []))
                else Inr (c1, [])
            | None \<Rightarrow> Inr (c1, [])))"

subsection \<open>setLonLat and getExtentPosition\<close>

text \<open>
  Modelled from the spec: \<^verbatim>\<open>Camera.set\<close> and \<^verbatim>\<open>Camera.refresh\<close> (og/camera/Camera.js) are
  not among the sources. \<^verbatim>\<open>set(eye, look, up)\<close> places the eye and derives the basis as
  the spec's section 4.3 (step 6) does: \<open>n = normalize(eye - look)\<close>,
  \<open>u = normalize(up \<times> n)\<close>, \<open>v = n \<times> u\<close>; \<^verbatim>\<open>refresh\<close> rebuilds the projection (left out,
  as the matrices are) and calls \<^verbatim>\<open>update\<close>.
\<close>

definition camera_set :: "camera \<Rightarrow> vec3 \<Rightarrow> vec3 \<Rightarrow> vec3 \<Rightarrow> camera" where
  "camera_set c e look up =
     (let n = sub e look;
          u = cross up n;
          n = normal n;
          u = normal u;
          v = cross n u
      in c\<lparr>eye := e, cam_u := u, cam_v := v, cam_n := n\<rparr>)"



text \<open>
  Modelled from the spec: the constant \<^verbatim>\<open>math.RADIANS\<close> (og/math.js) is not among the
  sources; it converts degrees to radians.
\<close>

definition RADIANS :: real where
  "RADIANS = pi / 180"

text \<open>
  The bounds of an \<^verbatim>\<open>Extent\<close> (og/Extent.js, not among the sources), as its four getters
  return them.
\<close>

record extent =
  getNorth :: real
  getSouth :: real
  getEast :: real
  getWest :: real

text \<open>
  The first half of \<^verbatim>\<open>getExtentPosition\<close>: the four corners, the centre of the diagonal,
  and the check that replaces a centre of magnitude below \<open>0.000001\<close> by the point at the
  middle longitude and latitude. The result is the centre, its magnitude before the check,
  and the corners.
\<close>

definition extent_center :: "planet \<Rightarrow> extent \<Rightarrow> vec3 \<times> real \<times> vec3 \<times> vec3 \<times> vec3 \<times> vec3" where
  "extent_center P ext =
     (let north = getNorth ext;
          south = getSouth ext;
          east = getEast ext;
          west = getWest ext;
          east = (if west > east then east + 360 else east);
          cart = LonLat east north 0;
          northEast = lonLatToCartesian P cart;
          cart = cart\<lparr>lat := south\<rparr>;
          southEast = lonLatToCartesian P cart;
          cart = cart\<lparr>lon := west\<rparr>;
          southWest = lonLatToCartesian P cart;
          cart = cart\<lparr>lat := north\<rparr>;
          northWest = lonLatToCartesian P cart;
          center = add (scale (sub northEast southWest) 0.5) southWest;
          mag = length3 center;
          center = (if mag < 0.000001
                    then lonLatToCartesian P
                           (cart\<lparr>lon := (east + west) * 0.5, lat := (north + south) * 0.5\<rparr>)
                    else center)
      in (center, mag, northWest, southEast, northEast, southWest))"

definition max4 :: "real \<Rightarrow> real \<Rightarrow> real \<Rightarrow> real \<Rightarrow> real" where
  "max4 a b c d = max (max a b) (max c d)"

text \<open>
  \<^verbatim>\<open>getExtentPosition\<close>; the view angle and the aspect ratio are fields of the base
  class and are arguments here.
\<close>

definition getExtentPosition :: "planet \<Rightarrow> real \<Rightarrow> real \<Rightarrow> extent \<Rightarrow> real \<Rightarrow> vec3" where
  "getExtentPosition P viewAngle aspect ext h =
     (let (center, mag, northWest, southEast, northEast, southWest) = extent_center P ext;
          northWest = sub northWest center;
          southEast = sub southEast center;
          northEast = sub northEast center;
          southWest = sub southWest center;
          direction = normal center;
          right = normal (cross direction UP);
          up = normal (cross right direction);
          h' = max4 \<bar>dot up northWest\<bar> \<bar>dot up southEast\<bar> \<bar>dot up northEast\<bar>
                    \<bar>dot up southWest\<bar>;
          w' = max4 \<bar>dot right northWest\<bar> \<bar>dot right southEast\<bar> \<bar>dot right northEast\<bar>
                    \<bar>dot right southWest\<bar>;
          tanPhi = tan (viewAngle * RADIANS * 0.5);
          tanTheta = aspect * tanPhi;
          d = max (w' / tanTheta) (h' / tanPhi);
          center = normal center
      in scale center (mag + d + js_or h 0))"

subsection \<open>Sequences of calls\<close>

text \<open>
  The camera is driven from outside: the render node calls \<^verbatim>\<open>prepareFrame\<close> once per
  frame, and the application calls \<^verbatim>\<open>flyCartesian\<close> and \<^verbatim>\<open>stopFlying\<close> in between.
  \<open>run_with\<close> makes a list of such calls one after the other, collects the events, and
  stops at the first raise. \<open>run\<close> is the run in which no callback and no observer calls
  the camera: all calls are those of the list.
\<close>

datatype call =
    FlyCartesian vec3 "look_arg option" "vec3 option" "callback option" "callback option"
  | PrepareFrame
  | StopFlying

fun do_call_with :: "handlers \<Rightarrow> planet \<Rightarrow> call \<Rightarrow> camera \<Rightarrow> error + camera \<times> event list" where
  "do_call_with H P (FlyCartesian cartesian look up cb scb) c =
     flyCartesian H P c cartesian look up cb scb"
| "do_call_with H P PrepareFrame c = prepareFrame H P c"
| "do_call_with H P StopFlying c = Inr (stopFlying c)"

fun run_with :: "handlers \<Rightarrow> planet \<Rightarrow> call list \<Rightarrow> camera \<Rightarrow> error + camera \<times> event list" where
  "run_with H P [] c = Inr (c, [])"
| "run_with H P (x # xs) c =
     (case do_call_with H P x c of
        Inl e \<Rightarrow> Inl e
      | Inr (c', ev) \<Rightarrow>
          (case run_with H P xs c' of
             Inl e \<Rightarrow> Inl e
           | Inr (c'', ev') \<Rightarrow> Inr (c'', ev @ ev')))"

abbreviation do_call :: "planet \<Rightarrow> call \<Rightarrow> camera \<Rightarrow> error + camera \<times> event list" where
  "do_call P x c \<equiv> do_call_with inert P x c"

abbreviation run :: "planet \<Rightarrow> call list \<Rightarrow> camera \<Rightarrow> error + camera \<times> event list" where
  "run P xs c \<equiv> run_with inert P xs c"

definition trace :: "planet \<Rightarrow> call list \<Rightarrow> camera \<Rightarrow> error + event list" where
  "trace P xs c = map_sum id snd (run P xs c)"

text \<open>The events of one tick of a flight, and of one \<^verbatim>\<open>stopFlying\<close>.\<close>

definition tick_events :: "key \<Rightarrow> event list" where
  "tick_events k = [Lock LayerLock k, Lock TerrainLock k, Lock NormalMapCreator k, ViewChange]"

definition free_events :: "key \<Rightarrow> event list" where
  "free_events k = [Free LayerLock k, Free TerrainLock k, Free NormalMapCreator k]"

definition start_events :: "callback option \<Rightarrow> event list" where
  "start_events scb = (case scb of Some s \<Rightarrow> [StartCallback s] | None \<Rightarrow> [])"

definition complete_events :: "callback option \<Rightarrow> event list" where
  "complete_events cb = (case cb of Some s \<Rightarrow> [CompleteCallback s] | None \<Rightarrow> [])"

text \<open>The completion callbacks that a trace invokes, in order.\<close>

fun completions :: "event list \<Rightarrow> callback list" where
  "completions [] = []"
| "completions (CompleteCallback cb # evs) = cb # completions evs"
| "completions (_ # evs) = completions evs"


definition hits :: "planet \<Rightarrow> bool" where
  "hits P = (\<forall>g. getRayIntersectionEllipsoid P \<lparr>origin = ZERO, direction = g\<rparr> \<noteq> None)"

subsection \<open>A spherical planet and a camera at rest\<close>

text \<open>
  Modelled from the spec: the ellipsoid, the planet and the mercator module are not among
  the sources (spec, section 6). To run the model on concrete inputs, \<open>sphere_planet r\<close>
  is a planet whose ellipsoid is the sphere of radius \<open>r\<close> about the origin, with
  longitude and latitude in degrees, the polar axis along \<open>y\<close> and longitude 0 along
  \<open>z\<close>, a terrain that is the sphere itself, and the spherical mercator projection.
\<close>

definition DEGREES :: real where
  "DEGREES = 180 / pi"

definition atan2 :: "real \<Rightarrow> real \<Rightarrow> real" where
  "atan2 b a =
     (if a > 0 then arctan (b / a)
      else if a < 0 then (if b \<ge> 0 then arctan (b / a) + pi else arctan (b / a) - pi)
      else if b > 0 then pi / 2
      else if b < 0 then - pi / 2
      else 0)"

definition sphere_hit :: "real \<Rightarrow> ray \<Rightarrow> vec3 option" where
  "sphere_hit r ry =
     (let o_w = dot (origin ry) (direction ry);
          disc = o_w * o_w - (dot (origin ry) (origin ry) - r * r)
      in if disc < 0 then None
         else Some (add (origin ry) (scale (direction ry) (- o_w + sqrt disc))))"

definition sphere_planet :: "real \<Rightarrow> planet" where
  "sphere_planet r =
     \<lparr>lonLatToCartesian = (\<lambda>ll.
        scale (Vec3 (cos (lat ll * RADIANS) * sin (lon ll * RADIANS))
                    (sin (lat ll * RADIANS))
                    (cos (lat ll * RADIANS) * cos (lon ll * RADIANS)))
              (r + height ll)),
      cartesianToLonLat = (\<lambda>w.
        LonLat (atan2 (vx w) (vz w) * DEGREES) (arcsin (vy w / length3 w) * DEGREES)
               (length3 w - r)),
      forwardMercator = (\<lambda>ll.
        LonLat (lon ll * 20037508.34 / 180)
               (ln (tan ((90 + lat ll) * pi / 360)) / pi * 20037508.34) (height ll)),
      MAX_LAT = 85.0511287798,
      getRayIntersectionEllipsoid = sphere_hit r,
      getTerrainPoint = (\<lambda>seg e pos tp. (length3 e - r, pos, scale (normal e) r))\<rparr>"

text \<open>
  The constructor of \<^verbatim>\<open>PlanetCamera\<close>. The eye and the basis come from the base class
  \<^verbatim>\<open>Camera\<close> and are arguments here; the key is a fresh \<^verbatim>\<open>Key\<close>. \<^verbatim>\<open>eyeNorm\<close>, which
  the constructor leaves to the first \<^verbatim>\<open>update\<close>, has the value that \<^verbatim>\<open>update\<close> gives it.
\<close>

definition PlanetCamera ::
  "planet \<Rightarrow> vec3 \<Rightarrow> vec3 \<Rightarrow> vec3 \<Rightarrow> vec3 \<Rightarrow> real option \<Rightarrow> key \<Rightarrow> camera" where
  "PlanetCamera P e u v n minAltitude' k =
     (let ll = cartesianToLonLat P e
      in \<lparr>eye = e, cam_u = u, cam_v = v, cam_n = n,
          minAltitude = (case minAltitude' of Some a \<Rightarrow> js_or a 50 | None \<Rightarrow> 50),
          lonLat = ll,
          lonLatMerc = forwardMercator P ll,
          terrainAltitude = height ll,
          terrainPoint = Vec3 0 0 0,
          insideSegment = None,
          slope = 0,
          eyeNorm = normal e,
          insideSegmentPosition = LonLat 0 0 0,
          keyLock = k,
          framesArr = [],
          framesCounter = 0,
          numFrames = 50,
          completeCallback = None,
          flying = False\<rparr>)"

text \<open>
  A camera two radii from the centre of the unit sphere, above longitude 0 and latitude 0,
  looking at the centre with \<open>y\<close> up.
\<close>

definition camera_at_rest :: camera where
  "camera_at_rest =
     PlanetCamera (sphere_planet 1) (Vec3 0 0 2) (Vec3 1 0 0) (Vec3 0 1 0) (Vec3 0 0 1) None 7"

text \<open>
  Two applications whose functions call the camera. In \<open>chained P\<close> the completion callback
  number 1 requests a flight to the point \<open>(3, 0, 0)\<close> with the completion callback
  number 2 (and no start callback, so that no function is called during the request); no
  other function calls the camera. In \<open>stop_observer\<close> the observer of the view-change
  event calls \<^verbatim>\<open>stopFlying\<close>.
\<close>

definition chained :: "planet \<Rightarrow> handlers" where
  "chained P =
     inert\<lparr>onComplete := (\<lambda>cb c.
        if cb = 1 then flyCartesian inert P c (Vec3 3 0 0) None None (Some 2) None
        else Inr (c, []))\<rparr>"

definition stop_observer :: handlers where
  "stop_observer = inert\<lparr>onViewChange := (\<lambda>c. Inr (stopFlying c))\<rparr>"


text \<open>The pose of the camera as a frame, and the frames that \<^verbatim>\<open>flyCartesian\<close> plans.\<close>

definition pose :: "camera \<Rightarrow> frame" where
  "pose c = \<lparr>f_eye = eye c, f_n = cam_n c, f_u = cam_u c, f_v = cam_v c\<rparr>"

definition planned_frames ::
  "planet \<Rightarrow> camera \<Rightarrow> vec3 \<Rightarrow> look_arg option \<Rightarrow> vec3 option \<Rightarrow> frame list" where
  "planned_frames P c cartesian look up =
     map (\<lambda>j. projr (fly_frame P (fly_plan P c cartesian look up) (ease_d (numFrames c) j)))
       [0..<Suc (numFrames c)]"

text \<open>
  The planner places the eye of a frame on the ray from the centre of the ellipsoid
  through the blended ground point, at the blended height above the point where the ray
  leaves the ellipsoid (\<^verbatim>\<open>ground_i.addA(g_i.scale(height_i))\<close>). \<open>radial_height P e\<close>
  says of a point \<open>e\<close> that it is met in this way from its own geodetic coordinates: it
  lies on the ray through the ground point below it, at its geodetic height above the
  ellipsoid.
\<close>

definition radial_height :: "planet \<Rightarrow> vec3 \<Rightarrow> bool" where
  "radial_height P e =
     (let ll = cartesianToLonLat P e;
          dir = normal (lonLatToCartesian P (LonLat (lon ll) (lat ll) 0))
      in case getRayIntersectionEllipsoid P \<lparr>origin = ZERO, direction = dir\<rparr> of
           None \<Rightarrow> False
         | Some g \<Rightarrow> add g (scale dir (height ll)) = e)"

text \<open>
  The height of a frame above the ellipsoid, as the loop of \<^verbatim>\<open>flyCartesian\<close> computes it
  for the easing parameter \<open>d\<close>: the cubic blend of the start height, the apex height
  (twice) and the end height.
\<close>

definition fly_height :: "plan \<Rightarrow> real \<Rightarrow> real" where
  "fly_height pl d =
     height_a pl * d * d * d + max_h pl * 3 * d * d * (1 - d)
       + max_h pl * 3 * d * (1 - d) * (1 - d) + height_b pl * (1 - d) * (1 - d) * (1 - d)"

text \<open>
  A camera one radius above a sphere of radius \<open>1 / 10000\<close>, at longitude 0 and
  latitude 0.
\<close>

definition tiny_camera :: camera where
  "tiny_camera =
     PlanetCamera (sphere_planet (1 / 10000)) (Vec3 0 0 (1 / 5000)) (Vec3 1 0 0) (Vec3 0 1 0)
       (Vec3 0 0 1) None 7"

subsection \<open>The spec's formulas\<close>

text \<open>
  Modelled from the spec: the local surface normal of the ellipsoid (spec, section 4.2).
  \<^verbatim>\<open>Ellipsoid.getSurfaceNormal\<close> is named in a comment of \<^verbatim>\<open>getExtentPosition\<close> and is not
  among the sources; the outward unit normal of the ellipsoid with the radii
  \<open>(a, b, c)\<close> at a point is the normalised gradient of
  \<open>x\<^sup>2 / a\<^sup>2 + y\<^sup>2 / b\<^sup>2 + z\<^sup>2 / c\<^sup>2\<close>.
\<close>

definition getSurfaceNormal :: "vec3 \<Rightarrow> vec3 \<Rightarrow> vec3" where
  "getSurfaceNormal radii w =
     normal (Vec3 (vx w / (vx radii * vx radii)) (vy w / (vy radii * vy radii))
                  (vz w / (vz radii * vz radii)))"

text \<open>
  The eye after \<^verbatim>\<open>setAltitude\<close> in the words of the spec (section 4.2):
  \<open>eye = terrainPoint + normal \<cdot> alt\<close>, with the surface normal at the terrain contact
  point.
\<close>

definition spec_setAltitude_eye :: "vec3 \<Rightarrow> camera \<Rightarrow> real \<Rightarrow> vec3" where
  "spec_setAltitude_eye radii c alt =
     add (terrainPoint c) (scale (getSurfaceNormal radii (terrainPoint c)) alt)"

text \<open>
  The apex height in the words of the spec (section 4.3, step 3): the bulge factor
  \<open>hM = sqrt(max(sep,0)/2)\<close> with \<open>sep = 1 - dot(dir_a, dir_b)\<close>, the altitude floor that is
  6639613 unless an endpoint is higher, and the apex
  \<open>max(floor, max(h_a, h_b)) + 2.5 hM (floor - max(h_a, h_b))\<close>.
\<close>

definition spec_hM :: "vec3 \<Rightarrow> vec3 \<Rightarrow> real" where
  "spec_hM dir_a dir_b = sqrt (max (1 - dot dir_a dir_b) 0 / 2)"

definition spec_maxAltitudeFloor :: "real \<Rightarrow> real \<Rightarrow> real" where
  "spec_maxAltitudeFloor h_a h_b = (if max h_a h_b > 6639613 then max h_a h_b else 6639613)"

definition spec_apex :: "real \<Rightarrow> real \<Rightarrow> real \<Rightarrow> real" where
  "spec_apex h_a h_b hM =
     max (spec_maxAltitudeFloor h_a h_b) (max h_a h_b)
       + 2.5 * hM * (spec_maxAltitudeFloor h_a h_b - max h_a h_b)"

text \<open>
  The look point and the up vector that \<^verbatim>\<open>flyCartesian\<close> uses for its optional arguments
  (\<^verbatim>\<open>look || Vec3.ZERO\<close>, converted when it is a \<^verbatim>\<open>LonLat\<close>, and \<^verbatim>\<open>up || Vec3.UP\<close>).
\<close>

definition fly_look :: "planet \<Rightarrow> look_arg option \<Rightarrow> vec3" where
  "fly_look P look =
     (case look of
        None \<Rightarrow> ZERO
      | Some (LookVec w) \<Rightarrow> w
      | Some (LookLonLat ll) \<Rightarrow> lonLatToCartesian P ll)"

definition fly_up :: "vec3 option \<Rightarrow> vec3" where
  "fly_up up = (case up of None \<Rightarrow> UP | Some w \<Rightarrow> w)"

text \<open>
  The invariant of the camera basis (spec, section 3): unit vectors, pairwise orthogonal,
  with \<open>u = v \<times> n\<close>, the orientation that \<open>u = normalize(up \<times> n)\<close>, \<open>v = n \<times> u\<close> gives.
\<close>

definition orthonormal :: "vec3 \<Rightarrow> vec3 \<Rightarrow> vec3 \<Rightarrow> bool" where
  "orthonormal u v n =
     (length3 u = 1 \<and> length3 v = 1 \<and> length3 n = 1
      \<and> dot u v = 0 \<and> dot v n = 0 \<and> dot n u = 0 \<and> u = cross v n)"

section \<open>Properties\<close>

subsection \<open>Vectors\<close>

lemma dot_ZERO: "dot ZERO w = 0"
  by (cases w) (simp add: ZERO_def)

subsection \<open>The effects of the single operations\<close>

lemma stopFlying_state:
  "fst (stopFlying c) = c\<lparr>flying := False, framesArr := [], framesCounter := - 1\<rparr>"
  by (simp add: stopFlying_def)

lemma stopFlying_events: "snd (stopFlying c) = free_events (keyLock c)"
  by (simp add: stopFlying_def free_events_def)

lemma update_events: "snd (update P c) = [ViewChange]"
  by (simp add: update_def Let_def)

lemma update_state:
  "fst (update P c) = c\<lparr>lonLat := lonLat (updateGeodeticPosition P c),
      lonLatMerc := lonLatMerc (updateGeodeticPosition P c),
      eyeNorm := normal (eye c),
      slope := dot (cam_n c) (normal (eye c))\<rparr>"
  by (simp add: update_def Let_def updateGeodeticPosition_def)

lemma update_keeps:
  "flying (fst (update P c)) = flying c"
  "framesArr (fst (update P c)) = framesArr c"
  "framesCounter (fst (update P c)) = framesCounter c"
  "numFrames (fst (update P c)) = numFrames c"
  "keyLock (fst (update P c)) = keyLock c"
  "completeCallback (fst (update P c)) = completeCallback c"
  "eye (fst (update P c)) = eye c"
  "cam_u (fst (update P c)) = cam_u c"
  "cam_v (fst (update P c)) = cam_v c"
  "cam_n (fst (update P c)) = cam_n c"
  "terrainAltitude (fst (update P c)) = terrainAltitude c"
  "terrainPoint (fst (update P c)) = terrainPoint c"
  by (simp_all add: update_state)

lemma setAltitude_events: "snd (setAltitude P c alt) = [ViewChange]"
  by (simp add: setAltitude_def Let_def update_events)

lemma setAltitude_keeps:
  "flying (fst (setAltitude P c alt)) = flying c"
  "keyLock (fst (setAltitude P c alt)) = keyLock c"
  "completeCallback (fst (setAltitude P c alt)) = completeCallback c"
  by (simp_all add: setAltitude_def Let_def update_keeps)

lemma inert_simps:
  "onStart inert s = (\<lambda>c. Inr (c, []))"
  "onComplete inert cb = (\<lambda>c. Inr (c, []))"
  "onViewChange inert = (\<lambda>c. Inr (c, []))"
  by (simp_all add: inert_def)

lemma dispatch_quiet:
  "onViewChange H = (\<lambda>c. Inr (c, [])) \<Longrightarrow> dispatch H r = Inr r"
  by (simp add: dispatch_def)

text \<open>
  A frame of a flight that is not the last one, when no observer of the view-change
  event calls the camera.
\<close>

lemma prepareFrame_step_quiet:
  assumes "onViewChange H = (\<lambda>c. Inr (c, []))"
    "flying c" "length (framesArr c) = Suc (numFrames c)"
    "0 < framesCounter c" "framesCounter c \<le> int (numFrames c)"
  shows "\<exists>c'. prepareFrame H P c = Inr (c', tick_events (keyLock c))
    \<and> flying c' \<and> framesArr c' = framesArr c \<and> numFrames c' = numFrames c
    \<and> framesCounter c' = framesCounter c - 1 \<and> keyLock c' = keyLock c
    \<and> completeCallback c' = completeCallback c
    \<and> pose c' = framesArr c ! nat (int (numFrames c) - framesCounter c)"
  using assms(2-)
  by (simp add: prepareFrame_def Let_def arr_get_def split_beta update_keeps update_events
      tick_events_def pose_def dispatch_quiet[OF assms(1)])

lemma prepareFrame_flying_step:
  assumes "flying c" "length (framesArr c) = Suc (numFrames c)"
    "0 < framesCounter c" "framesCounter c \<le> int (numFrames c)"
  shows "\<exists>c'. prepareFrame inert P c = Inr (c', tick_events (keyLock c))
    \<and> flying c' \<and> framesArr c' = framesArr c \<and> numFrames c' = numFrames c
    \<and> framesCounter c' = framesCounter c - 1 \<and> keyLock c' = keyLock c
    \<and> completeCallback c' = completeCallback c
    \<and> pose c' = framesArr c ! nat (int (numFrames c) - framesCounter c)"
  by (rule prepareFrame_step_quiet[OF inert_simps(3) assms])

text \<open>
  The last frame of a flight, when no observer calls the camera: the flight is stopped,
  then the completion callback, if there is one, runs on the stopped camera, and only
  after it has returned is the stored callback cleared.
\<close>

lemma prepareFrame_last_quiet:
  assumes "onViewChange H = (\<lambda>c. Inr (c, []))"
    "flying c" "length (framesArr c) = Suc (numFrames c)"
    "framesCounter c = 0"
  shows "\<exists>c4. prepareFrame H P c =
        (case completeCallback c of
           None \<Rightarrow> Inr (c4, tick_events (keyLock c) @ free_events (keyLock c))
         | Some cb \<Rightarrow>
             (case onComplete H cb c4 of
                Inl e \<Rightarrow> Inl e
              | Inr (c5, ev) \<Rightarrow>
                  Inr (c5\<lparr>completeCallback := None\<rparr>,
                       tick_events (keyLock c) @ free_events (keyLock c)
                         @ CompleteCallback cb # ev)))
    \<and> \<not> flying c4 \<and> framesArr c4 = [] \<and> numFrames c4 = numFrames c
    \<and> framesCounter c4 = - 1 \<and> keyLock c4 = keyLock c
    \<and> completeCallback c4 = completeCallback c
    \<and> pose c4 = framesArr c ! numFrames c"
proof -
  let ?c1 = "c\<lparr>eye := f_eye (framesArr c ! numFrames c), cam_u := f_u (framesArr c ! numFrames c),
               cam_v := f_v (framesArr c ! numFrames c), cam_n := f_n (framesArr c ! numFrames c)\<rparr>"
  let ?c4 = "(fst (update P ?c1))\<lparr>flying := False, framesArr := [], framesCounter := - 1\<rparr>"
  have run: "prepareFrame H P c =
        (case completeCallback c of
           None \<Rightarrow> Inr (?c4, tick_events (keyLock c) @ free_events (keyLock c))
         | Some cb \<Rightarrow>
             (case onComplete H cb ?c4 of
                Inl e \<Rightarrow> Inl e
              | Inr (c5, ev) \<Rightarrow>
                  Inr (c5\<lparr>completeCallback := None\<rparr>,
                       tick_events (keyLock c) @ free_events (keyLock c)
                         @ CompleteCallback cb # ev)))"
    using assms(2-)
    by (simp add: prepareFrame_def Let_def arr_get_def split_beta update_keeps update_events
        stopFlying_def tick_events_def free_events_def call_handler_def
        dispatch_quiet[OF assms(1)]
        split: option.splits sum.splits)
  have "\<not> flying ?c4 \<and> framesArr ?c4 = [] \<and> numFrames ?c4 = numFrames c
    \<and> framesCounter ?c4 = - 1 \<and> keyLock ?c4 = keyLock c
    \<and> completeCallback ?c4 = completeCallback c
    \<and> pose ?c4 = framesArr c ! numFrames c"
    by (simp add: update_keeps pose_def)
  with run show ?thesis by blast
qed

lemma prepareFrame_flying_last:
  assumes "flying c" "length (framesArr c) = Suc (numFrames c)"
    "framesCounter c = 0"
  shows "\<exists>c'. prepareFrame inert P c =
        Inr (c', tick_events (keyLock c) @ free_events (keyLock c)
                 @ complete_events (completeCallback c))
    \<and> \<not> flying c' \<and> framesArr c' = [] \<and> numFrames c' = numFrames c
    \<and> framesCounter c' = - 1 \<and> keyLock c' = keyLock c
    \<and> completeCallback c' = None
    \<and> pose c' = framesArr c ! numFrames c
    \<and> lonLat c' = cartesianToLonLat P (eye c')"
  using assms
  by (simp add: prepareFrame_def Let_def arr_get_def split_beta update_keeps update_events
      stopFlying_def tick_events_def free_events_def complete_events_def pose_def
      call_handler_def dispatch_quiet[OF inert_simps(3)] inert_simps
      update_state updateGeodeticPosition_def
      split: option.splits)

lemma prepareFrame_idle_projr:
  assumes "\<not> flying c"
  shows "prepareFrame inert P c = Inr (projr (prepareFrame inert P c))
      \<and> \<not> flying (fst (projr (prepareFrame inert P c)))
      \<and> set (snd (projr (prepareFrame inert P c))) \<subseteq> {ViewChange}
      \<and> keyLock (fst (projr (prepareFrame inert P c))) = keyLock c
      \<and> completeCallback (fst (projr (prepareFrame inert P c))) = completeCallback c"
  using assms
  by (simp add: prepareFrame_def Let_def split_beta setAltitude_keeps setAltitude_events
      dispatch_quiet[OF inert_simps(3)]
      split: option.splits)

lemma prepareFrame_idle:
  assumes "\<not> flying c"
  shows "\<exists>c' ev. prepareFrame inert P c = Inr (c', ev) \<and> \<not> flying c' \<and> set ev \<subseteq> {ViewChange}
            \<and> keyLock c' = keyLock c \<and> completeCallback c' = completeCallback c"
  using prepareFrame_idle_projr[OF assms, of P]
  by (metis prod.collapse)

subsection \<open>The loop of flyCartesian\<close>

declare fly_loop.simps [simp del]

lemma fly_loop_frames:
  assumes "\<forall>j\<le>nf. \<exists>f. fly_frame P pl (ease_d nf j) = Inr f"
    and "i = length arr" and "i \<le> Suc nf"
  shows "fly_loop P pl nf i arr =
           Inr (arr @ map (\<lambda>j. projr (fly_frame P pl (ease_d nf j))) [i..<Suc nf])"
  using assms
proof (induction P pl nf i arr rule: fly_loop.induct)
  case (1 P pl nf i arr)
  show ?case
  proof (cases "i \<le> nf")
    case True
    then obtain f where f: "fly_frame P pl (ease_d nf i) = Inr f"
      using "1.prems"(1) by blast
    have put: "arr_put arr i f = arr @ [f]"
      using "1.prems"(2) by (simp add: arr_put_def)
    have len: "Suc i = length (arr_put arr i f)"
      using "1.prems"(2) by (simp add: arr_put_def)
    have "fly_loop P pl nf (Suc i) (arr_put arr i f) =
            Inr (arr_put arr i f @ map (\<lambda>j. projr (fly_frame P pl (ease_d nf j))) [Suc i..<Suc nf])"
      using True by (intro "1.IH"[OF True f "1.prems"(1) len]) simp
    moreover have "[i..<Suc nf] = i # [Suc i..<Suc nf]"
      using True by (simp add: upt_conv_Cons del: upt_Suc)
    ultimately show ?thesis
      using True f by (subst fly_loop.simps) (simp add: put del: upt_Suc)
  next
    case False
    then have "i = Suc nf" using "1.prems"(3) by simp
    then show ?thesis
      by (subst fly_loop.simps) simp
  qed
qed

lemma fly_frame_hits: "hits P \<Longrightarrow> \<exists>f. fly_frame P pl d = Inr f"
  by (auto simp: hits_def fly_frame_def Let_def split: option.splits)

text \<open>
  A flight request on a planet whose rays from the centre hit the ellipsoid, with no
  start callback, or with one that makes no call.
\<close>

lemma flyCartesian_quiet:
  assumes "hits P"
    and "case scb of None \<Rightarrow> True | Some s \<Rightarrow> onStart H s = (\<lambda>c. Inr (c, []))"
  shows "flyCartesian H P c cartesian look up cb scb =
     Inr (c\<lparr>flying := True,
            framesArr := planned_frames P c cartesian look up,
            framesCounter := int (numFrames c), completeCallback := cb\<rparr>,
          free_events (keyLock c) @ start_events scb)"
proof -
  let ?c2 = "(fst (stopFlying c))\<lparr>completeCallback := cb\<rparr>"
  have pl: "fly_plan P ?c2 cartesian look up = fly_plan P c cartesian look up"
    by (simp add: fly_plan_def stopFlying_def)
  have "fly_loop P (fly_plan P c cartesian look up) (numFrames c) 0 [] =
      Inr ([] @ map (\<lambda>j. projr (fly_frame P (fly_plan P c cartesian look up)
                                (ease_d (numFrames c) j))) [0..<Suc (numFrames c)])"
    by (rule fly_loop_frames) (use assms(1) fly_frame_hits in auto)
  then show ?thesis
    using assms(2)
    unfolding flyCartesian_def planned_frames_def
    by (cases scb)
       (simp_all add: pl split_beta Let_def stopFlying_state stopFlying_events
          start_events_def call_handler_def,
        simp_all add: stopFlying_def fly_plan_def)
qed

lemma flyCartesian_Inr:
  assumes "hits P"
  shows "flyCartesian inert P c cartesian look up cb scb =
     Inr (c\<lparr>flying := True,
            framesArr := planned_frames P c cartesian look up,
            framesCounter := int (numFrames c), completeCallback := cb\<rparr>,
          free_events (keyLock c) @ start_events scb)"
  by (rule flyCartesian_quiet[OF assms]) (simp add: inert_simps split: option.splits)

lemma length_planned_frames:
  "length (planned_frames P c cartesian look up) = Suc (numFrames c)"
  by (simp add: planned_frames_def)

subsection \<open>Runs\<close>

lemma run_with_append:
  "run_with H P (xs @ ys) c =
     (case run_with H P xs c of
        Inl e \<Rightarrow> Inl e
      | Inr (c', ev) \<Rightarrow>
          (case run_with H P ys c' of
             Inl e \<Rightarrow> Inl e
           | Inr (c'', ev') \<Rightarrow> Inr (c'', ev @ ev')))"
  by (induction xs arbitrary: c) (auto split: sum.splits prod.splits)

lemma run_append:
  "run P (xs @ ys) c =
     (case run P xs c of
        Inl e \<Rightarrow> Inl e
      | Inr (c', ev) \<Rightarrow>
          (case run P ys c' of
             Inl e \<Rightarrow> Inl e
           | Inr (c'', ev') \<Rightarrow> Inr (c'', ev @ ev')))"
  by (rule run_with_append)

lemma concat_replicate_Suc:
  "concat (replicate (Suc j) xs) = concat (replicate j xs) @ xs"
  by (induction j) simp_all

lemma run_with_ticks_flying:
  assumes "onViewChange H = (\<lambda>c. Inr (c, []))"
    "flying c" "length (framesArr c) = Suc (numFrames c)"
    "framesCounter c = int j" "j \<le> numFrames c" "k \<le> j"
  shows "\<exists>c'. run_with H P (replicate k PrepareFrame) c
                 = Inr (c', concat (replicate k (tick_events (keyLock c))))
    \<and> flying c' \<and> framesArr c' = framesArr c \<and> numFrames c' = numFrames c
    \<and> framesCounter c' = int (j - k) \<and> keyLock c' = keyLock c
    \<and> completeCallback c' = completeCallback c"
  using assms(2-)
proof (induction k arbitrary: c j)
  case 0
  then show ?case by simp
next
  case (Suc k)
  from Suc.prems have pos: "0 < framesCounter c" "framesCounter c \<le> int (numFrames c)"
    by simp_all
  from prepareFrame_step_quiet[OF assms(1) Suc.prems(1,2) pos, of P]
  obtain c1 where c1: "prepareFrame H P c = Inr (c1, tick_events (keyLock c))"
    "flying c1" "framesArr c1 = framesArr c" "numFrames c1 = numFrames c"
    "framesCounter c1 = framesCounter c - 1" "keyLock c1 = keyLock c"
    "completeCallback c1 = completeCallback c"
    by auto
  have "\<exists>c'. run_with H P (replicate k PrepareFrame) c1
                 = Inr (c', concat (replicate k (tick_events (keyLock c1))))
    \<and> flying c' \<and> framesArr c' = framesArr c1 \<and> numFrames c' = numFrames c1
    \<and> framesCounter c' = int ((j - 1) - k) \<and> keyLock c' = keyLock c1
    \<and> completeCallback c' = completeCallback c1"
    using Suc.prems c1 by (intro Suc.IH) auto
  then show ?case
    using c1 by auto
qed

lemma run_ticks_flying:
  assumes "flying c" "length (framesArr c) = Suc (numFrames c)"
    "framesCounter c = int j" "j \<le> numFrames c" "k \<le> j"
  shows "\<exists>c'. run P (replicate k PrepareFrame) c
                 = Inr (c', concat (replicate k (tick_events (keyLock c))))
    \<and> flying c' \<and> framesArr c' = framesArr c \<and> numFrames c' = numFrames c
    \<and> framesCounter c' = int (j - k) \<and> keyLock c' = keyLock c
    \<and> completeCallback c' = completeCallback c"
  by (rule run_with_ticks_flying[OF inert_simps(3) assms])

text \<open>
  All the frames of a flight, when no observer calls the camera: the completion callback
  runs on the stopped camera at the end of the last frame.
\<close>

lemma run_with_ticks_last:
  assumes "onViewChange H = (\<lambda>c. Inr (c, []))"
    "flying c" "length (framesArr c) = Suc (numFrames c)"
    "framesCounter c = int j" "j \<le> numFrames c"
  shows "\<exists>c4. run_with H P (replicate (Suc j) PrepareFrame) c =
        (case completeCallback c of
           None \<Rightarrow> Inr (c4, concat (replicate (Suc j) (tick_events (keyLock c)))
                             @ free_events (keyLock c))
         | Some cb \<Rightarrow>
             (case onComplete H cb c4 of
                Inl e \<Rightarrow> Inl e
              | Inr (c5, ev) \<Rightarrow>
                  Inr (c5\<lparr>completeCallback := None\<rparr>,
                       concat (replicate (Suc j) (tick_events (keyLock c)))
                         @ free_events (keyLock c) @ CompleteCallback cb # ev)))
    \<and> \<not> flying c4 \<and> framesArr c4 = [] \<and> numFrames c4 = numFrames c
    \<and> framesCounter c4 = - 1 \<and> keyLock c4 = keyLock c
    \<and> completeCallback c4 = completeCallback c"
proof -
  from run_with_ticks_flying[OF assms order_refl, of P]
  obtain c1 where c1: "run_with H P (replicate j PrepareFrame) c
      = Inr (c1, concat (replicate j (tick_events (keyLock c))))"
    "flying c1" "framesArr c1 = framesArr c" "numFrames c1 = numFrames c"
    "framesCounter c1 = 0" "keyLock c1 = keyLock c" "completeCallback c1 = completeCallback c"
    by auto
  have len: "length (framesArr c1) = Suc (numFrames c1)"
    using c1 assms by simp
  from prepareFrame_last_quiet[OF assms(1) c1(2) len c1(5), of P]
  obtain c4 where c4': "prepareFrame H P c1 =
        (case completeCallback c1 of
           None \<Rightarrow> Inr (c4, tick_events (keyLock c1) @ free_events (keyLock c1))
         | Some cb \<Rightarrow>
             (case onComplete H cb c4 of
                Inl e \<Rightarrow> Inl e
              | Inr (c5, ev) \<Rightarrow>
                  Inr (c5\<lparr>completeCallback := None\<rparr>,
                       tick_events (keyLock c1) @ free_events (keyLock c1)
                         @ CompleteCallback cb # ev)))"
    "\<not> flying c4" "framesArr c4 = []" "numFrames c4 = numFrames c1"
    "framesCounter c4 = - 1" "keyLock c4 = keyLock c1" "completeCallback c4 = completeCallback c1"
    by blast
  note c4 = c4'[unfolded c1(4) c1(6) c1(7)]
  have eq: "replicate (Suc j) PrepareFrame = replicate j PrepareFrame @ [PrepareFrame]"
    by (simp add: replicate_append_same)
  have "run_with H P (replicate (Suc j) PrepareFrame) c =
        (case completeCallback c of
           None \<Rightarrow> Inr (c4, concat (replicate (Suc j) (tick_events (keyLock c)))
                             @ free_events (keyLock c))
         | Some cb \<Rightarrow>
             (case onComplete H cb c4 of
                Inl e \<Rightarrow> Inl e
              | Inr (c5, ev) \<Rightarrow>
                  Inr (c5\<lparr>completeCallback := None\<rparr>,
                       concat (replicate (Suc j) (tick_events (keyLock c)))
                         @ free_events (keyLock c) @ CompleteCallback cb # ev)))"
    unfolding eq run_with_append using c1(1) c4(1)
    by (simp add: concat_replicate_Suc del: replicate_Suc replicate.simps
          split: option.splits sum.splits)
  then show ?thesis using c4(2-) by blast
qed

lemma run_ticks_idle:
  assumes "\<not> flying c"
  shows "\<exists>c' ev. run P (replicate m PrepareFrame) c = Inr (c', ev) \<and> \<not> flying c'
            \<and> set ev \<subseteq> {ViewChange}
            \<and> keyLock c' = keyLock c \<and> completeCallback c' = completeCallback c"
  using assms
proof (induction m arbitrary: c)
  case 0
  then show ?case by simp
next
  case (Suc m)
  from prepareFrame_idle[OF Suc.prems, of P]
  obtain c1 ev1 where c1: "prepareFrame inert P c = Inr (c1, ev1)" "\<not> flying c1"
    "set ev1 \<subseteq> {ViewChange}" "keyLock c1 = keyLock c" "completeCallback c1 = completeCallback c"
    by blast
  from Suc.IH[OF c1(2)]
  obtain c2 ev2 where c2: "run P (replicate m PrepareFrame) c1 = Inr (c2, ev2)" "\<not> flying c2"
    "set ev2 \<subseteq> {ViewChange}" "keyLock c2 = keyLock c1" "completeCallback c2 = completeCallback c1"
    by blast
  show ?case using c1 c2 by auto
qed

lemma run_ticks_complete:
  assumes "flying c" "length (framesArr c) = Suc (numFrames c)"
    "framesCounter c = int j" "j \<le> numFrames c"
  shows "\<exists>c'. run P (replicate (Suc j) PrepareFrame) c =
        Inr (c', concat (replicate (Suc j) (tick_events (keyLock c))) @ free_events (keyLock c)
                 @ complete_events (completeCallback c))
    \<and> \<not> flying c' \<and> framesArr c' = [] \<and> numFrames c' = numFrames c
    \<and> framesCounter c' = - 1 \<and> keyLock c' = keyLock c
    \<and> completeCallback c' = None"
proof -
  from run_ticks_flying[OF assms order_refl, of P]
  obtain c1 where c1: "run P (replicate j PrepareFrame) c
      = Inr (c1, concat (replicate j (tick_events (keyLock c))))"
    "flying c1" "framesArr c1 = framesArr c" "numFrames c1 = numFrames c"
    "framesCounter c1 = 0" "keyLock c1 = keyLock c" "completeCallback c1 = completeCallback c"
    by auto
  have len: "length (framesArr c1) = Suc (numFrames c1)"
    using c1 assms by simp
  from prepareFrame_flying_last[OF c1(2) len c1(5), of P]
  obtain c2 where c2: "prepareFrame inert P c1 = Inr (c2, tick_events (keyLock c) @ free_events (keyLock c)
                 @ complete_events (completeCallback c))"
    "\<not> flying c2" "framesArr c2 = []" "numFrames c2 = numFrames c"
    "framesCounter c2 = - 1" "keyLock c2 = keyLock c" "completeCallback c2 = None"
    using c1 by auto
  have eq: "replicate (Suc j) PrepareFrame = replicate j PrepareFrame @ [PrepareFrame]"
    by (simp add: replicate_append_same)
  have "run P (replicate (Suc j) PrepareFrame) c =
      Inr (c2, concat (replicate j (tick_events (keyLock c)))
        @ (tick_events (keyLock c) @ free_events (keyLock c)
                 @ complete_events (completeCallback c)))"
    unfolding eq run_append using c1(1) c2(1) by simp
  then show ?thesis using c2
    by (simp add: concat_replicate_Suc del: replicate_Suc replicate.simps)
qed

lemma run_ticks_pose:
  assumes "flying c" "length (framesArr c) = Suc (numFrames c)"
    "framesCounter c = int j" "j \<le> numFrames c" "k \<le> j"
  shows "\<exists>c' ev. run P (replicate (Suc k) PrepareFrame) c = Inr (c', ev)
            \<and> pose c' = framesArr c ! (numFrames c - j + k)"
proof -
  from run_ticks_flying[OF assms, of P]
  obtain c1 where c1: "run P (replicate k PrepareFrame) c
      = Inr (c1, concat (replicate k (tick_events (keyLock c))))"
    "flying c1" "framesArr c1 = framesArr c" "numFrames c1 = numFrames c"
    "framesCounter c1 = int (j - k)"
    by auto
  have len: "length (framesArr c1) = Suc (numFrames c1)"
    using c1 assms by simp
  have idx: "nat (int (numFrames c1) - framesCounter c1) = numFrames c - j + k"
    using c1 assms by simp
  have idx': "nat (int (numFrames c) - (int j - int k)) = numFrames c - j + k"
    using assms by simp
  have "\<exists>c2 ev2. prepareFrame inert P c1 = Inr (c2, ev2) \<and> pose c2 = framesArr c ! (numFrames c - j + k)"
  proof (cases "j - k = 0")
    case True
    then have z: "framesCounter c1 = 0" using c1 by simp
    from prepareFrame_flying_last[OF c1(2) len z, of P] idx z c1 show ?thesis
      by auto
  next
    case False
    then have pos: "0 < framesCounter c1" "framesCounter c1 \<le> int (numFrames c1)"
      using c1 assms by simp_all
    from prepareFrame_flying_step[OF c1(2) len pos, of P] idx idx' c1 show ?thesis
      by auto
  qed
  then obtain c2 ev2 where c2: "prepareFrame inert P c1 = Inr (c2, ev2)"
    "pose c2 = framesArr c ! (numFrames c - j + k)" by blast
  have eq: "replicate (Suc k) PrepareFrame = replicate k PrepareFrame @ [PrepareFrame]"
    by (simp add: replicate_append_same)
  have "run P (replicate (Suc k) PrepareFrame) c =
      Inr (c2, concat (replicate k (tick_events (keyLock c))) @ ev2)"
    unfolding eq run_append using c1(1) c2(1) by simp
  then show ?thesis using c2 by blast
qed

subsection \<open>Geodetic update\<close>

text \<open>
  C5. For every eye position, \<^verbatim>\<open>updateGeodeticPosition\<close> replaces the longitude, latitude
  and height by the ellipsoid's inverse projection of the eye; it replaces the mercator
  form by the forward projection of that position exactly when the absolute latitude is
  at most \<open>MAX_LAT\<close>, and leaves the old mercator form in place otherwise. Nothing else
  of the camera changes.
\<close>

theorem updateGeodeticPosition_mercator_band:
  "updateGeodeticPosition P c =
     c\<lparr>lonLat := cartesianToLonLat P (eye c),
       lonLatMerc := (if \<bar>lat (cartesianToLonLat P (eye c))\<bar> \<le> MAX_LAT P
                      then forwardMercator P (cartesianToLonLat P (eye c))
                      else lonLatMerc c)\<rparr>"
  by (simp add: updateGeodeticPosition_def Let_def)

subsection \<open>Flights as runs of calls\<close>

lemma run_Cons_Inr:
  "do_call P x c = Inr (c1, ev1) \<Longrightarrow> run P xs c1 = Inr (c2, ev2)
     \<Longrightarrow> run P (x # xs) c = Inr (c2, ev1 @ ev2)"
  by simp

lemma run_append_Inr:
  "run P xs c = Inr (c1, ev1) \<Longrightarrow> run P ys c1 = Inr (c2, ev2)
     \<Longrightarrow> run P (xs @ ys) c = Inr (c2, ev1 @ ev2)"
  by (simp add: run_append)

lemma run_fly_ticks:
  assumes "hits P" "k \<le> numFrames c"
  shows "\<exists>c'. run P (FlyCartesian t look up cb scb # replicate k PrepareFrame) c
            = Inr (c', free_events (keyLock c) @ start_events scb
                       @ concat (replicate k (tick_events (keyLock c))))
      \<and> flying c' \<and> length (framesArr c') = Suc (numFrames c')
      \<and> framesArr c' = planned_frames P c t look up
      \<and> numFrames c' = numFrames c \<and> framesCounter c' = int (numFrames c - k)
      \<and> keyLock c' = keyLock c \<and> completeCallback c' = cb"
proof -
  let ?c1 = "c\<lparr>flying := True, framesArr := planned_frames P c t look up,
            framesCounter := int (numFrames c), completeCallback := cb\<rparr>"
  have fly: "do_call P (FlyCartesian t look up cb scb) c
      = Inr (?c1, free_events (keyLock c) @ start_events scb)"
    using flyCartesian_Inr[OF assms(1)] by simp
  have "\<exists>c'. run P (replicate k PrepareFrame) ?c1
                 = Inr (c', concat (replicate k (tick_events (keyLock ?c1))))
    \<and> flying c' \<and> framesArr c' = framesArr ?c1 \<and> numFrames c' = numFrames ?c1
    \<and> framesCounter c' = int (numFrames c - k) \<and> keyLock c' = keyLock ?c1
    \<and> completeCallback c' = completeCallback ?c1"
    using assms(2) by (intro run_ticks_flying) (simp_all add: length_planned_frames)
  then obtain c' where c': "run P (replicate k PrepareFrame) ?c1
                 = Inr (c', concat (replicate k (tick_events (keyLock c))))"
    "flying c'" "framesArr c' = planned_frames P c t look up" "numFrames c' = numFrames c"
    "framesCounter c' = int (numFrames c - k)" "keyLock c' = keyLock c"
    "completeCallback c' = cb"
    by auto
  from run_Cons_Inr[OF fly c'(1)] c' show ?thesis
    by (auto simp: length_planned_frames)
qed

lemma run_fly_complete:
  assumes "hits P"
  shows "\<exists>c'. run P (FlyCartesian t look up cb scb # replicate (Suc (numFrames c)) PrepareFrame) c
            = Inr (c', free_events (keyLock c) @ start_events scb
                       @ concat (replicate (Suc (numFrames c)) (tick_events (keyLock c)))
                       @ free_events (keyLock c) @ complete_events cb)
      \<and> \<not> flying c' \<and> framesArr c' = []
      \<and> numFrames c' = numFrames c \<and> framesCounter c' = - 1
      \<and> keyLock c' = keyLock c \<and> completeCallback c' = None"
proof -
  let ?c1 = "c\<lparr>flying := True, framesArr := planned_frames P c t look up,
            framesCounter := int (numFrames c), completeCallback := cb\<rparr>"
  have fly: "do_call P (FlyCartesian t look up cb scb) c
      = Inr (?c1, free_events (keyLock c) @ start_events scb)"
    using flyCartesian_Inr[OF assms(1)] by simp
  have "\<exists>c'. run P (replicate (Suc (numFrames ?c1)) PrepareFrame) ?c1 =
        Inr (c', concat (replicate (Suc (numFrames ?c1)) (tick_events (keyLock ?c1)))
                 @ free_events (keyLock ?c1) @ complete_events (completeCallback ?c1))
    \<and> \<not> flying c' \<and> framesArr c' = [] \<and> numFrames c' = numFrames ?c1
    \<and> framesCounter c' = - 1 \<and> keyLock c' = keyLock ?c1
    \<and> completeCallback c' = None"
    by (intro run_ticks_complete) (simp_all add: length_planned_frames)
  then obtain c' where c': "run P (replicate (Suc (numFrames c)) PrepareFrame) ?c1
          = Inr (c', concat (replicate (Suc (numFrames c)) (tick_events (keyLock c)))
                 @ free_events (keyLock c) @ complete_events cb)"
    "\<not> flying c'" "framesArr c' = []" "numFrames c' = numFrames c"
    "framesCounter c' = - 1" "keyLock c' = keyLock c" "completeCallback c' = None"
    by auto
  from run_Cons_Inr[OF fly c'(1)] c' show ?thesis
    by (auto simp del: replicate_Suc replicate.simps)
qed

subsection \<open>Counting events\<close>









lemma completions_append: "completions (xs @ ys) = completions xs @ completions ys"
  by (induction xs rule: completions.induct) auto

lemma completions_ticks: "completions (concat (replicate k (tick_events a))) = []"
  by (induction k) (auto simp: completions_append tick_events_def)

lemma completions_simps:
  "completions (free_events a) = []" "completions (start_events scb) = []"
  "completions (complete_events cb) = (case cb of Some x \<Rightarrow> [x] | None \<Rightarrow> [])"
  by (simp_all add: free_events_def start_events_def complete_events_def split: option.splits)

lemma completions_viewchanges: "set ev \<subseteq> {ViewChange} \<Longrightarrow> completions ev = []"
  by (induction ev rule: completions.induct) auto

lemma hits_sphere_planet: "hits (sphere_planet r)"
  by (simp add: hits_def sphere_planet_def sphere_hit_def dot_ZERO Let_def not_less)

lemma sphere_hit_centre:
  "getRayIntersectionEllipsoid (sphere_planet r) \<lparr>origin = ZERO, direction = g\<rparr>
     = Some (scale g \<bar>r\<bar>)"
  by (cases g) (simp add: sphere_planet_def sphere_hit_def ZERO_def Let_def)

lemma camera_at_rest_fields:
  "keyLock camera_at_rest = 7" "numFrames camera_at_rest = 50"
  "flying camera_at_rest = False" "framesArr camera_at_rest = []"
  "completeCallback camera_at_rest = None"
  by (simp_all add: camera_at_rest_def PlanetCamera_def Let_def)

lemma camera_at_rest_lonLat: "lonLat camera_at_rest = LonLat 0 0 1"
  by (simp add: camera_at_rest_def PlanetCamera_def Let_def sphere_planet_def atan2_def LonLat_def)

subsection \<open>Stopping a flight\<close>

text \<open>
  C4, as the code has it. \<^verbatim>\<open>stopFlying\<close> can be called in any state and is idempotent on
  the camera: called twice in a row it leaves the state that one call leaves (not flying,
  no frames, cursor \<open>-1\<close>). Every call frees each of the three locks once with the
  camera's key, so two calls in a row make two free calls per lock. No call invokes the
  completion callback.
\<close>

theorem stopFlying_twice:
  "run P [StopFlying] c =
     Inr (c\<lparr>flying := False, framesArr := [], framesCounter := - 1\<rparr>, free_events (keyLock c))
   \<and> run P [StopFlying, StopFlying] c =
     Inr (c\<lparr>flying := False, framesArr := [], framesCounter := - 1\<rparr>,
          free_events (keyLock c) @ free_events (keyLock c))
   \<and> completions (free_events (keyLock c) @ free_events (keyLock c)) = []"
  by (simp add: stopFlying_def free_events_def)

text \<open>
  Against C4 as stated (the locks are released at most once each by two calls in a row):
  two calls to \<^verbatim>\<open>stopFlying\<close> on the camera at rest call \<^verbatim>\<open>free\<close> on the layer lock twice.
\<close>

theorem stopFlying_twice_frees_twice:
  "map_sum id (\<lambda>T. count_list T (Free LayerLock 7))
     (trace (sphere_planet 1) [StopFlying, StopFlying] camera_at_rest) = Inr 2"
  by (simp add: trace_def stopFlying_def camera_at_rest_fields)

subsection \<open>Lock and free calls of a flight\<close>





subsection \<open>The completion callback\<close>

lemma run_fly_complete_idle:
  assumes "hits P"
  shows "\<exists>c' T. run P (FlyCartesian t look up cb scb
                     # replicate (Suc (numFrames c)) PrepareFrame @ replicate m PrepareFrame) c
            = Inr (c', T)
      \<and> \<not> flying c' \<and> completeCallback c' = None
      \<and> completions T = (case cb of Some x \<Rightarrow> [x] | None \<Rightarrow> [])"
proof -
  from run_fly_complete[OF assms, of t look up cb scb c]
  obtain c1 where c1: "run P (FlyCartesian t look up cb scb # replicate (Suc (numFrames c)) PrepareFrame) c
            = Inr (c1, free_events (keyLock c) @ start_events scb
                       @ concat (replicate (Suc (numFrames c)) (tick_events (keyLock c)))
                       @ free_events (keyLock c) @ complete_events cb)"
      "\<not> flying c1" "completeCallback c1 = None"
    by blast
  from run_ticks_idle[OF c1(2), of P m]
  obtain c2 ev where c2: "run P (replicate m PrepareFrame) c1 = Inr (c2, ev)" "\<not> flying c2"
     "set ev \<subseteq> {ViewChange}" "completeCallback c2 = completeCallback c1"
    by blast
  from run_append_Inr[OF c1(1) c2(1)]
  have "run P (FlyCartesian t look up cb scb
                     # replicate (Suc (numFrames c)) PrepareFrame @ replicate m PrepareFrame) c
      = Inr (c2, (free_events (keyLock c) @ start_events scb
                       @ concat (replicate (Suc (numFrames c)) (tick_events (keyLock c)))
                       @ free_events (keyLock c) @ complete_events cb) @ ev)"
    by (simp del: replicate_Suc)
  moreover have "completions ((free_events (keyLock c) @ start_events scb
                       @ concat (replicate (Suc (numFrames c)) (tick_events (keyLock c)))
                       @ free_events (keyLock c) @ complete_events cb) @ ev)
       = (case cb of Some x \<Rightarrow> [x] | None \<Rightarrow> [])"
    using completions_viewchanges[OF c2(3)]
    by (simp add: completions_append completions_ticks completions_simps del: replicate_Suc)
  ultimately show ?thesis
    using c2 c1 by (metis (no_types, lifting))
qed

lemma run_fly_stop_idle:
  assumes "hits P" "k \<le> numFrames c"
  shows "\<exists>c' T. run P (FlyCartesian t look up cb scb
                     # replicate k PrepareFrame @ StopFlying # replicate m PrepareFrame) c
            = Inr (c', T)
      \<and> \<not> flying c' \<and> completions T = []"
proof -
  from run_fly_ticks[OF assms, of t look up cb scb]
  obtain c1 where c1: "run P (FlyCartesian t look up cb scb # replicate k PrepareFrame) c
            = Inr (c1, free_events (keyLock c) @ start_events scb
                       @ concat (replicate k (tick_events (keyLock c))))"
    by blast
  have nf: "\<not> flying (fst (stopFlying c1))"
    by (simp add: stopFlying_def)
  from run_ticks_idle[OF nf, of P m]
  obtain c2 ev where c2: "run P (replicate m PrepareFrame) (fst (stopFlying c1)) = Inr (c2, ev)"
     "\<not> flying c2" "set ev \<subseteq> {ViewChange}"
    by blast
  have stop: "do_call P StopFlying c1 = Inr (fst (stopFlying c1), free_events (keyLock c1))"
    by (simp add: stopFlying_def free_events_def)
  from run_append_Inr[OF c1(1) run_Cons_Inr[OF stop c2(1)]]
  have "run P (FlyCartesian t look up cb scb
                     # replicate k PrepareFrame @ StopFlying # replicate m PrepareFrame) c
      = Inr (c2, (free_events (keyLock c) @ start_events scb
                       @ concat (replicate k (tick_events (keyLock c))))
                 @ free_events (keyLock c1) @ ev)"
    by simp
  moreover have "completions ((free_events (keyLock c) @ start_events scb
                       @ concat (replicate k (tick_events (keyLock c))))
                 @ free_events (keyLock c1) @ ev) = []"
    using completions_viewchanges[OF c2(3)]
    by (simp add: completions_append completions_ticks completions_simps)
  ultimately show ?thesis
    using c2 by (metis (no_types, lifting))
qed

lemma run_fly_refly:
  assumes "hits P" "k \<le> numFrames c"
  shows "\<exists>c' T. run P (FlyCartesian t look up cb scb
                     # replicate k PrepareFrame @ [FlyCartesian t' look' up' cb' scb']) c
            = Inr (c', T)
      \<and> flying c' \<and> completeCallback c' = cb' \<and> completions T = []"
proof -
  from run_fly_ticks[OF assms, of t look up cb scb]
  obtain c1 where c1: "run P (FlyCartesian t look up cb scb # replicate k PrepareFrame) c
            = Inr (c1, free_events (keyLock c) @ start_events scb
                       @ concat (replicate k (tick_events (keyLock c))))"
    by blast
  from run_fly_ticks[OF assms(1), of 0 c1 t' look' up' cb' scb']
  obtain c2 where c2: "run P [FlyCartesian t' look' up' cb' scb'] c1
       = Inr (c2, free_events (keyLock c1) @ start_events scb')"
     "flying c2" "completeCallback c2 = cb'"
    by auto
  from run_append_Inr[OF c1(1) c2(1)]
  have "run P (FlyCartesian t look up cb scb
                     # replicate k PrepareFrame @ [FlyCartesian t' look' up' cb' scb']) c
      = Inr (c2, (free_events (keyLock c) @ start_events scb
                       @ concat (replicate k (tick_events (keyLock c))))
                 @ free_events (keyLock c1) @ start_events scb')"
    by simp
  moreover have "completions ((free_events (keyLock c) @ start_events scb
                       @ concat (replicate k (tick_events (keyLock c))))
                 @ free_events (keyLock c1) @ start_events scb') = []"
    by (simp add: completions_append completions_ticks completions_simps)
  ultimately show ?thesis
    using c2 by (metis (no_types, lifting))
qed

lemma run_fly_refly_complete:
  assumes "hits P" "k \<le> numFrames c"
  shows "\<exists>c' T. run P ((FlyCartesian t look up cb scb # replicate k PrepareFrame)
                     @ FlyCartesian t' look' up' cb' scb'
                     # replicate (Suc (numFrames c)) PrepareFrame @ replicate m PrepareFrame) c
            = Inr (c', T)
      \<and> \<not> flying c' \<and> completeCallback c' = None
      \<and> completions T = (case cb' of Some x \<Rightarrow> [x] | None \<Rightarrow> [])"
proof -
  from run_fly_ticks[OF assms, of t look up cb scb]
  obtain c1 where c1: "run P (FlyCartesian t look up cb scb # replicate k PrepareFrame) c
            = Inr (c1, free_events (keyLock c) @ start_events scb
                       @ concat (replicate k (tick_events (keyLock c))))"
      "numFrames c1 = numFrames c"
    by blast
  from run_fly_complete_idle[OF assms(1), of t' look' up' cb' scb' c1 m]
  obtain c2 T2 where c2: "run P (FlyCartesian t' look' up' cb' scb'
                     # replicate (Suc (numFrames c)) PrepareFrame @ replicate m PrepareFrame) c1
            = Inr (c2, T2)"
      "\<not> flying c2" "completeCallback c2 = None"
      "completions T2 = (case cb' of Some x \<Rightarrow> [x] | None \<Rightarrow> [])"
    unfolding c1(2) by blast
  from run_append_Inr[OF c1(1) c2(1)]
  have "run P ((FlyCartesian t look up cb scb # replicate k PrepareFrame)
                     @ FlyCartesian t' look' up' cb' scb'
                     # replicate (Suc (numFrames c)) PrepareFrame @ replicate m PrepareFrame) c
      = Inr (c2, (free_events (keyLock c) @ start_events scb
                       @ concat (replicate k (tick_events (keyLock c)))) @ T2)" .
  moreover have "completions ((free_events (keyLock c) @ start_events scb
                       @ concat (replicate k (tick_events (keyLock c)))) @ T2)
           = (case cb' of Some x \<Rightarrow> [x] | None \<Rightarrow> [])"
    using c2(4)
    by (simp add: completions_append completions_ticks completions_simps)
  ultimately show ?thesis
    using c2 by (metis (no_types, lifting))
qed


text \<open>
  Calls made one after the other, by an application whose callbacks and observers do not
  call the camera. Let a flight be started with completion callback \<open>cb\<close> and let the
  planner's rays hit the ellipsoid. During the first \<open>k \<le> numFrames\<close> ticks the callback is
  not invoked and stays stored. The tick that takes the cursor below zero (the tick number
  \<open>numFrames + 1\<close>) invokes it as its last event, inside \<^verbatim>\<open>prepareFrame\<close>, and clears it;
  whatever number of ticks follows, it has been invoked exactly once. A flight cancelled by
  \<^verbatim>\<open>stopFlying\<close> between two ticks never invokes its callback, whatever number of ticks
  follows. A flight cancelled by a new fly request between two ticks does not invoke it
  either: the request overwrites the stored callback by its own, and the run of the new
  flight invokes the new callback only.
\<close>

lemma completion_callback_sequential:
  assumes "hits P" and "k \<le> numFrames c"
  shows "(\<exists>c' T. run P (FlyCartesian t look up cb scb # replicate k PrepareFrame) c = Inr (c', T)
            \<and> flying c' \<and> framesCounter c' = int (numFrames c - k)
            \<and> completeCallback c' = cb \<and> completions T = [])
       \<and> (\<exists>c' T. run P (FlyCartesian t look up cb scb
                          # replicate (Suc (numFrames c)) PrepareFrame) c
                       = Inr (c', T @ complete_events cb)
            \<and> completions T = [] \<and> \<not> flying c' \<and> framesCounter c' = - 1
            \<and> completeCallback c' = None)
       \<and> (\<exists>c' T. run P (FlyCartesian t look up cb scb
                          # replicate (Suc (numFrames c)) PrepareFrame
                          @ replicate m PrepareFrame) c = Inr (c', T)
            \<and> completions T = (case cb of Some x \<Rightarrow> [x] | None \<Rightarrow> []))
       \<and> (\<exists>c' T. run P (FlyCartesian t look up cb scb
                          # replicate k PrepareFrame @ StopFlying # replicate m PrepareFrame) c
                       = Inr (c', T)
            \<and> completions T = [])
       \<and> (\<exists>c' T. run P (FlyCartesian t look up cb scb
                          # replicate k PrepareFrame @ [FlyCartesian t' look' up' cb' scb']) c
                       = Inr (c', T)
            \<and> completeCallback c' = cb' \<and> completions T = [])
       \<and> (\<exists>c' T. run P ((FlyCartesian t look up cb scb # replicate k PrepareFrame)
                          @ FlyCartesian t' look' up' cb' scb'
                          # replicate (Suc (numFrames c)) PrepareFrame
                          @ replicate m PrepareFrame) c = Inr (c', T)
            \<and> completions T = (case cb' of Some x \<Rightarrow> [x] | None \<Rightarrow> []))"
proof (intro conjI)
  from run_fly_ticks[OF assms, of t look up cb scb]
  show "\<exists>c' T. run P (FlyCartesian t look up cb scb # replicate k PrepareFrame) c = Inr (c', T)
            \<and> flying c' \<and> framesCounter c' = int (numFrames c - k)
            \<and> completeCallback c' = cb \<and> completions T = []"
    by (metis (no_types, lifting) append_Nil completions_append completions_simps(1,2)
        completions_ticks)
next
  from run_fly_complete[OF assms(1), of t look up cb scb c]
  obtain c' where c': "run P (FlyCartesian t look up cb scb # replicate (Suc (numFrames c)) PrepareFrame) c
            = Inr (c', (free_events (keyLock c) @ start_events scb
                       @ concat (replicate (Suc (numFrames c)) (tick_events (keyLock c)))
                       @ free_events (keyLock c)) @ complete_events cb)"
     "\<not> flying c'" "framesCounter c' = - 1" "completeCallback c' = None"
    by auto
  have "completions (free_events (keyLock c) @ start_events scb
                       @ concat (replicate (Suc (numFrames c)) (tick_events (keyLock c)))
                       @ free_events (keyLock c)) = []"
    by (simp add: completions_append completions_ticks completions_simps del: replicate_Suc)
  with c' show "\<exists>c' T. run P (FlyCartesian t look up cb scb
                          # replicate (Suc (numFrames c)) PrepareFrame) c
                       = Inr (c', T @ complete_events cb)
            \<and> completions T = [] \<and> \<not> flying c' \<and> framesCounter c' = - 1
            \<and> completeCallback c' = None"
    by blast
next
  from run_fly_complete_idle[OF assms(1), of t look up cb scb c m]
  show "\<exists>c' T. run P (FlyCartesian t look up cb scb
                          # replicate (Suc (numFrames c)) PrepareFrame
                          @ replicate m PrepareFrame) c = Inr (c', T)
            \<and> completions T = (case cb of Some x \<Rightarrow> [x] | None \<Rightarrow> [])"
    by blast
next
  from run_fly_stop_idle[OF assms, of t look up cb scb m]
  show "\<exists>c' T. run P (FlyCartesian t look up cb scb
                          # replicate k PrepareFrame @ StopFlying # replicate m PrepareFrame) c
                       = Inr (c', T)
            \<and> completions T = []"
    by blast
next
  from run_fly_refly[OF assms, of t look up cb scb t' look' up' cb' scb']
  show "\<exists>c' T. run P (FlyCartesian t look up cb scb
                          # replicate k PrepareFrame @ [FlyCartesian t' look' up' cb' scb']) c
                       = Inr (c', T)
            \<and> completeCallback c' = cb' \<and> completions T = []"
    by blast
next
  from run_fly_refly_complete[OF assms, of t look up cb scb t' look' up' cb' scb' m]
  show "\<exists>c' T. run P ((FlyCartesian t look up cb scb # replicate k PrepareFrame)
                          @ FlyCartesian t' look' up' cb' scb'
                          # replicate (Suc (numFrames c)) PrepareFrame
                          @ replicate m PrepareFrame) c = Inr (c', T)
            \<and> completions T = (case cb' of Some x \<Rightarrow> [x] | None \<Rightarrow> [])"
    by blast
qed

text \<open>Callbacks and observers that call the camera.\<close>

lemma chained_simps:
  "onViewChange (chained P) = (\<lambda>c. Inr (c, []))"
  "onComplete (chained P) 1 = (\<lambda>c. flyCartesian inert P c (Vec3 3 0 0) None None (Some 2) None)"
  by (simp_all add: chained_def inert_simps)

lemma run_chained_flight:
  assumes "hits P"
    and "onViewChange H = (\<lambda>c. Inr (c, []))"
    and "onComplete H cb = (\<lambda>c. flyCartesian inert P c t' look' up' cb' None)"
  shows "\<exists>c' T. run_with H P (FlyCartesian t look up (Some cb) None
                     # replicate (Suc (numFrames c)) PrepareFrame) c = Inr (c', T)
      \<and> flying c' \<and> completeCallback c' = None
      \<and> length (framesArr c') = Suc (numFrames c') \<and> framesCounter c' = int (numFrames c')
      \<and> numFrames c' = numFrames c
      \<and> completions T = [cb]"
proof -
  let ?c0 = "c\<lparr>flying := True, framesArr := planned_frames P c t look up,
            framesCounter := int (numFrames c), completeCallback := Some cb\<rparr>"
  have fly: "do_call_with H P (FlyCartesian t look up (Some cb) None) c
      = Inr (?c0, free_events (keyLock c) @ start_events None)"
    using flyCartesian_quiet[OF assms(1), where scb=None and H=H] by simp
  have "\<exists>c4. run_with H P (replicate (Suc (numFrames c)) PrepareFrame) ?c0 =
        (case onComplete H cb c4 of
                Inl e \<Rightarrow> Inl e
              | Inr (c5, ev) \<Rightarrow>
                  Inr (c5\<lparr>completeCallback := None\<rparr>,
                       concat (replicate (Suc (numFrames c)) (tick_events (keyLock c)))
                         @ free_events (keyLock c) @ CompleteCallback cb # ev))
    \<and> numFrames c4 = numFrames c \<and> keyLock c4 = keyLock c"
    using run_with_ticks_last[OF assms(2), of ?c0 "numFrames c" P]
    by (simp add: length_planned_frames del: replicate_Suc
          cong: sum.case_cong option.case_cong) blast
  then obtain c4 where c4: "run_with H P (replicate (Suc (numFrames c)) PrepareFrame) ?c0 =
        (case onComplete H cb c4 of
                Inl e \<Rightarrow> Inl e
              | Inr (c5, ev) \<Rightarrow>
                  Inr (c5\<lparr>completeCallback := None\<rparr>,
                       concat (replicate (Suc (numFrames c)) (tick_events (keyLock c)))
                         @ free_events (keyLock c) @ CompleteCallback cb # ev))"
    "numFrames c4 = numFrames c" "keyLock c4 = keyLock c"
    by blast
  let ?c5 = "c4\<lparr>flying := True, framesArr := planned_frames P c4 t' look' up',
            framesCounter := int (numFrames c4), completeCallback := cb'\<rparr>"
  have cb: "onComplete H cb c4 = Inr (?c5, free_events (keyLock c4) @ start_events None)"
    unfolding assms(3) by (rule flyCartesian_Inr[OF assms(1)])
  have ticks: "run_with H P (replicate (Suc (numFrames c)) PrepareFrame) ?c0 =
       Inr (?c5\<lparr>completeCallback := None\<rparr>,
                       concat (replicate (Suc (numFrames c)) (tick_events (keyLock c)))
                         @ free_events (keyLock c) @ CompleteCallback cb
                         # (free_events (keyLock c4) @ start_events None))"
    unfolding c4(1) cb by simp
  have run: "run_with H P (FlyCartesian t look up (Some cb) None
                     # replicate (Suc (numFrames c)) PrepareFrame) c
     = Inr (?c5\<lparr>completeCallback := None\<rparr>,
            (free_events (keyLock c) @ start_events None)
            @ concat (replicate (Suc (numFrames c)) (tick_events (keyLock c)))
                         @ free_events (keyLock c) @ CompleteCallback cb
                         # (free_events (keyLock c4) @ start_events None))"
    using fly ticks by (simp del: replicate_Suc do_call_with.simps)
  have comp: "completions ((free_events (keyLock c) @ start_events None)
            @ concat (replicate (Suc (numFrames c)) (tick_events (keyLock c)))
                         @ free_events (keyLock c) @ CompleteCallback cb
                         # (free_events (keyLock c4) @ start_events None)) = [cb]"
    by (simp add: completions_append completions_ticks completions_simps
          del: replicate_Suc)
  have props: "flying (?c5\<lparr>completeCallback := None\<rparr>)
      \<and> completeCallback (?c5\<lparr>completeCallback := None\<rparr>) = None
      \<and> length (framesArr (?c5\<lparr>completeCallback := None\<rparr>))
          = Suc (numFrames (?c5\<lparr>completeCallback := None\<rparr>))
      \<and> framesCounter (?c5\<lparr>completeCallback := None\<rparr>)
          = int (numFrames (?c5\<lparr>completeCallback := None\<rparr>))
      \<and> numFrames (?c5\<lparr>completeCallback := None\<rparr>) = numFrames c"
    by (simp add: length_planned_frames c4)
  from run props comp show ?thesis by blast
qed

lemma run_ticks_no_callback:
  assumes "onViewChange H = (\<lambda>c. Inr (c, []))"
    "flying c" "length (framesArr c) = Suc (numFrames c)"
    "framesCounter c = int (numFrames c)" "completeCallback c = None"
  shows "\<exists>c' T. run_with H P (replicate (Suc (numFrames c)) PrepareFrame) c = Inr (c', T)
      \<and> \<not> flying c' \<and> completeCallback c' = None \<and> completions T = []"
proof -
  from run_with_ticks_last[OF assms(1-4) order_refl, of P]
  obtain c4 where c4: "run_with H P (replicate (Suc (numFrames c)) PrepareFrame) c =
       Inr (c4, concat (replicate (Suc (numFrames c)) (tick_events (keyLock c)))
                             @ free_events (keyLock c))"
     "\<not> flying c4" "completeCallback c4 = completeCallback c"
    unfolding assms(5) option.case by blast
  have "completions (concat (replicate (Suc (numFrames c)) (tick_events (keyLock c)))
                             @ free_events (keyLock c)) = []"
    by (simp add: completions_append completions_ticks completions_simps del: replicate_Suc)
  with c4 assms(5) show ?thesis by simp
qed

lemma run_chained_flight_lost:
  assumes "hits P"
    and "onViewChange H = (\<lambda>c. Inr (c, []))"
    and "onComplete H cb = (\<lambda>c. flyCartesian inert P c t' look' up' cb' None)"
  shows "\<exists>c' T. run_with H P ((FlyCartesian t look up (Some cb) None
                     # replicate (Suc (numFrames c)) PrepareFrame)
                     @ replicate (Suc (numFrames c)) PrepareFrame) c = Inr (c', T)
      \<and> \<not> flying c' \<and> completions T = [cb]"
proof -
  from run_chained_flight[OF assms, of t look up c]
  obtain c1 T1 where c1: "run_with H P (FlyCartesian t look up (Some cb) None
                     # replicate (Suc (numFrames c)) PrepareFrame) c = Inr (c1, T1)"
      "flying c1" "completeCallback c1 = None"
      "length (framesArr c1) = Suc (numFrames c1)" "framesCounter c1 = int (numFrames c1)"
      "numFrames c1 = numFrames c" "completions T1 = [cb]"
    by blast
  from run_ticks_no_callback[OF assms(2) c1(2,4,5,3), of P]
  obtain c2 T2 where c2: "run_with H P (replicate (Suc (numFrames c)) PrepareFrame) c1 = Inr (c2, T2)"
      "\<not> flying c2" "completions T2 = []"
    unfolding c1(6) by blast
  have "run_with H P ((FlyCartesian t look up (Some cb) None
                     # replicate (Suc (numFrames c)) PrepareFrame)
                     @ replicate (Suc (numFrames c)) PrepareFrame) c = Inr (c2, T1 @ T2)"
    unfolding run_with_append c1(1) using c2(1) by simp
  moreover have "completions (T1 @ T2) = [cb]"
    using c1(7) c2(3) by (simp add: completions_append)
  ultimately show ?thesis using c2(2) by blast
qed

lemma stop_observer_simps:
  "onViewChange stop_observer = (\<lambda>c. Inr (stopFlying c))"
  "onComplete stop_observer cb = (\<lambda>c. Inr (c, []))"
  by (simp_all add: stop_observer_def inert_simps)

lemma prepareFrame_stopped_by_observer:
  assumes "onViewChange H = (\<lambda>c. Inr (stopFlying c))"
    and "onComplete H cb = (\<lambda>c. Inr (c, []))"
    and "flying c" "length (framesArr c) = Suc (numFrames c)"
    and "0 \<le> framesCounter c" "framesCounter c \<le> int (numFrames c)"
    and "completeCallback c = Some cb"
  shows "\<exists>c' T. prepareFrame H P c = Inr (c', T) \<and> \<not> flying c' \<and> completions T = [cb]"
  using assms(3-)
  by (simp add: prepareFrame_def Let_def arr_get_def split_beta dispatch_def assms(1,2)
      call_handler_def update_keeps update_events stopFlying_def)

lemma run_fly_stopped_by_observer:
  assumes "hits P"
    and "onViewChange H = (\<lambda>c. Inr (stopFlying c))"
    and "onComplete H cb = (\<lambda>c. Inr (c, []))"
  shows "\<exists>c' T. run_with H P [FlyCartesian t look up (Some cb) None, PrepareFrame] c = Inr (c', T)
      \<and> \<not> flying c' \<and> completions T = [cb]"
proof -
  let ?c0 = "c\<lparr>flying := True, framesArr := planned_frames P c t look up,
            framesCounter := int (numFrames c), completeCallback := Some cb\<rparr>"
  have fly: "flyCartesian H P c t look up (Some cb) None
      = Inr (?c0, free_events (keyLock c) @ start_events None)"
    using flyCartesian_quiet[OF assms(1), where scb=None and H=H] by simp
  from prepareFrame_stopped_by_observer[OF assms(2,3), of ?c0 P]
  obtain c1 T1 where c1: "prepareFrame H P ?c0 = Inr (c1, T1)" "\<not> flying c1" "completions T1 = [cb]"
    by (auto simp: length_planned_frames)
  have "run_with H P [FlyCartesian t look up (Some cb) None, PrepareFrame] c
      = Inr (c1, (free_events (keyLock c) @ start_events None) @ T1)"
    using fly c1(1) by simp
  moreover have "completions ((free_events (keyLock c) @ start_events None) @ T1) = [cb]"
    using c1(3) by (simp add: completions_append completions_simps)
  ultimately show ?thesis using c1(2) by blast
qed

text \<open>
  C3. The completion callback of a flight is to be invoked exactly once, when the flight
  has ended, and never for a flight that was cancelled (the documentation of
  \<^verbatim>\<open>flyCartesian\<close>: ``Callback that calls after flying when flying is finished''; of
  \<^verbatim>\<open>stopFlying\<close>: ``Breaks the flight''). \<^verbatim>\<open>prepareFrame\<close> calls the stored callback first
  and clears the stored callback afterwards (lines 505-506), and it reads the flying flag
  only before \<^verbatim>\<open>update\<close> has dispatched the view-change event. On the unit sphere, with
  the camera at rest and a flight with the completion callback 1:

  \<^item> when the callback 1 requests a flight with the completion callback 2, then after the
    51 ticks of the first flight the camera is flying the second flight with no stored
    callback, and after the 51 ticks of the second flight that flight has ended and the
    callback 2 has not been invoked: the callbacks invoked are \<open>[1]\<close>;

  \<^item> when an observer of the view-change event calls \<^verbatim>\<open>stopFlying\<close>, the first tick of
    the flight leaves the camera not flying, the flight cancelled after one of its 51
    frames, and has invoked the callback 1.
\<close>

theorem chained_flight_callback_lost:
  "map_sum id (\<lambda>r. (flying (fst r), completeCallback (fst r), completions (snd r)))
     (run_with (chained (sphere_planet 1)) (sphere_planet 1)
        (FlyCartesian (Vec3 0 0 3) None None (Some 1) None # replicate 51 PrepareFrame)
        camera_at_rest)
     = Inr (True, None, [1])
   \<and> map_sum id (\<lambda>r. (flying (fst r), completions (snd r)))
     (run_with (chained (sphere_planet 1)) (sphere_planet 1)
        ((FlyCartesian (Vec3 0 0 3) None None (Some 1) None # replicate 51 PrepareFrame)
          @ replicate 51 PrepareFrame)
        camera_at_rest)
     = Inr (False, [1])
   \<and> map_sum id (\<lambda>r. (flying (fst r), completions (snd r)))
     (run_with stop_observer (sphere_planet 1)
        [FlyCartesian (Vec3 0 0 3) None None (Some 1) None, PrepareFrame]
        camera_at_rest)
     = Inr (False, [1])"
proof -
  have n: "(51::nat) = Suc (numFrames camera_at_rest)"
    by (simp add: camera_at_rest_fields)
  from run_chained_flight[OF hits_sphere_planet[of 1] chained_simps[of "sphere_planet 1"],
      where t="Vec3 0 0 3" and look=None and up=None and c=camera_at_rest]
  obtain c1 T1 where r1: "run_with (chained (sphere_planet 1)) (sphere_planet 1)
        (FlyCartesian (Vec3 0 0 3) None None (Some 1) None
          # replicate (Suc (numFrames camera_at_rest)) PrepareFrame) camera_at_rest = Inr (c1, T1)"
    and p1: "flying c1" "completeCallback c1 = None" "completions T1 = [1]"
    by blast
  have a: "map_sum id (\<lambda>r. (flying (fst r), completeCallback (fst r), completions (snd r)))
     (run_with (chained (sphere_planet 1)) (sphere_planet 1)
        (FlyCartesian (Vec3 0 0 3) None None (Some 1) None # replicate 51 PrepareFrame)
        camera_at_rest)
     = Inr (True, None, [1])"
    unfolding n r1 using p1 by simp
  from run_chained_flight_lost[OF hits_sphere_planet[of 1] chained_simps[of "sphere_planet 1"],
      where t="Vec3 0 0 3" and look=None and up=None and c=camera_at_rest]
  obtain c2 T2 where r2: "run_with (chained (sphere_planet 1)) (sphere_planet 1)
        ((FlyCartesian (Vec3 0 0 3) None None (Some 1) None
           # replicate (Suc (numFrames camera_at_rest)) PrepareFrame)
          @ replicate (Suc (numFrames camera_at_rest)) PrepareFrame) camera_at_rest = Inr (c2, T2)"
    and p2: "\<not> flying c2" "completions T2 = [1]"
    by blast
  have b: "map_sum id (\<lambda>r. (flying (fst r), completions (snd r)))
     (run_with (chained (sphere_planet 1)) (sphere_planet 1)
        ((FlyCartesian (Vec3 0 0 3) None None (Some 1) None # replicate 51 PrepareFrame)
          @ replicate 51 PrepareFrame)
        camera_at_rest)
     = Inr (False, [1])"
    unfolding n r2 using p2 by simp
  from run_fly_stopped_by_observer[OF hits_sphere_planet[of 1] stop_observer_simps,
      where cb=1 and t="Vec3 0 0 3" and look=None and up=None and c=camera_at_rest]
  obtain c3 T3 where r3: "run_with stop_observer (sphere_planet 1)
        [FlyCartesian (Vec3 0 0 3) None None (Some 1) None, PrepareFrame] camera_at_rest
        = Inr (c3, T3)"
    and p3: "\<not> flying c3" "completions T3 = [1]"
    by blast
  have c: "map_sum id (\<lambda>r. (flying (fst r), completions (snd r)))
     (run_with stop_observer (sphere_planet 1)
        [FlyCartesian (Vec3 0 0 3) None None (Some 1) None, PrepareFrame]
        camera_at_rest)
     = Inr (False, [1])"
    unfolding r3 using p3 by simp
  from a b c show ?thesis by blast
qed

subsection \<open>The easing of a flight\<close>

lemma smoothstep_mono:
  fixes a b :: real
  assumes "0 \<le> a" "a \<le> b" "b \<le> 1"
  shows "a * a * (3 - 2 * a) \<le> b * b * (3 - 2 * b)"
proof -
  have "0 \<le> (b - a) * (a * (3 - 2 * a - b) + b * (3 - 2 * b - a))"
    using assms by (intro mult_nonneg_nonneg add_nonneg_nonneg) auto
  also have "(b - a) * (a * (3 - 2 * a - b) + b * (3 - 2 * b - a))
      = b * b * (3 - 2 * b) - a * a * (3 - 2 * a)"
    by (simp add: algebra_simps)
  finally show ?thesis by simp
qed

lemma smoothstep_nonneg:
  fixes a :: real
  assumes "0 \<le> a" "a \<le> 1"
  shows "0 \<le> a * a * (3 - 2 * a)"
  using assms by (intro mult_nonneg_nonneg) auto

lemma ease_d_unfold:
  "ease_d nf i = ((1 - real i / real nf) * (1 - real i / real nf)
                   * (3 - 2 * (1 - real i / real nf)))\<^sup>2"
  by (simp add: ease_d_def Let_def power2_eq_square)

lemma ease_d_antimono:
  assumes "0 < nf" "i \<le> j" "j \<le> nf"
  shows "ease_d nf j \<le> ease_d nf i"
proof -
  let ?a = "1 - real j / real nf" and ?b = "1 - real i / real nf"
  have a0: "0 \<le> ?a" using assms by simp
  have ab: "?a \<le> ?b" using assms by (simp add: divide_right_mono)
  have b1: "?b \<le> 1" using assms by simp
  have "?a * ?a * (3 - 2 * ?a) \<le> ?b * ?b * (3 - 2 * ?b)"
    by (rule smoothstep_mono[OF a0 ab b1])
  moreover have "0 \<le> ?a * ?a * (3 - 2 * ?a)"
    using a0 ab b1 by (intro smoothstep_nonneg) auto
  ultimately show ?thesis
    unfolding ease_d_unfold by (intro power_mono) auto
qed

text \<open>
  C9. For a positive number of frames, the easing parameter of frame \<open>i\<close> is
  \<open>(x\<^sup>2 (3 - 2 x))\<^sup>2\<close> with \<open>x = 1 - i / numFrames\<close>; it is 1 for the first frame, 0 for
  the last, and does not increase from one frame index to the next over \<open>0 .. numFrames\<close>.
\<close>

theorem easing_monotone:
  assumes "0 < nf"
  shows "ease_d nf i = ((1 - real i / real nf)\<^sup>2 * (3 - 2 * (1 - real i / real nf)))\<^sup>2
       \<and> ease_d nf 0 = 1 \<and> ease_d nf nf = 0
       \<and> (\<forall>i j. i \<le> j \<and> j \<le> nf \<longrightarrow> ease_d nf j \<le> ease_d nf i)"
  using assms ease_d_antimono[OF assms]
  by (auto simp: ease_d_def Let_def power2_eq_square)

text \<open>The theorem for the default 50 frames, at the frames 17 and 18.\<close>

theorem easing_monotone_witness:
  "(0::nat) < 50
   \<and> ease_d 50 18 = ((1 - 18 / 50)\<^sup>2 * (3 - 2 * (1 - 18 / 50)))\<^sup>2
   \<and> ease_d 50 0 = 1 \<and> ease_d 50 50 = 0
   \<and> ease_d 50 18 \<le> ease_d 50 17"
proof -
  have pos: "(0::nat) < 50" by simp
  have le: "(17::nat) \<le> 18 \<and> (18::nat) \<le> 50" by simp
  from easing_monotone[OF pos, of 18]
  have "ease_d 50 18 = ((1 - 18 / 50)\<^sup>2 * (3 - 2 * (1 - 18 / 50)))\<^sup>2"
    "ease_d 50 0 = 1" "ease_d 50 50 = 0"
    "\<forall>i j. i \<le> j \<and> j \<le> 50 \<longrightarrow> ease_d 50 j \<le> ease_d 50 i"
    by simp_all
  with le pos show ?thesis by blast
qed

subsection \<open>Setting the altitude\<close>

lemma vec3_components: "Vec3 (vx a * s + vx b) (vy a * s + vy b) (vz a * s + vz b) = add b (scale a s)"
  by (cases a; cases b) simp

text \<open>
  C6, as the code has it. For every altitude \<open>alt\<close>, \<^verbatim>\<open>setAltitude(alt)\<close> moves the eye to
  \<open>terrainPoint + normal \<cdot> alt\<close>, where \<open>normal\<close> is the unit vector of the eye position
  before the call (\<^verbatim>\<open>this.eye.normal()\<close>, the direction from the centre of the planet to
  the camera), records \<open>alt\<close> as the terrain altitude, so that \<^verbatim>\<open>getAltitude\<close> returns it,
  and then runs \<^verbatim>\<open>update\<close>, which dispatches the view-change event.
\<close>

theorem setAltitude_eye:
  "setAltitude P c alt =
     update P (c\<lparr>eye := add (terrainPoint c) (scale (normal (eye c)) alt),
                 terrainAltitude := alt\<rparr>)
   \<and> eye (fst (setAltitude P c alt)) = add (terrainPoint c) (scale (normal (eye c)) alt)
   \<and> getAltitude (fst (setAltitude P c alt)) = alt
   \<and> snd (setAltitude P c alt) = [ViewChange]"
  by (simp add: setAltitude_def Let_def vec3_components update_keeps update_events getAltitude_def)

lemma length3_axis:
  "length3 (Vec3 a 0 0) = \<bar>a\<bar>" "length3 (Vec3 0 a 0) = \<bar>a\<bar>" "length3 (Vec3 0 0 a) = \<bar>a\<bar>"
  by simp_all

text \<open>
  Against C6 as stated (the normal is the surface normal of the ellipsoid at the terrain
  contact point): on the unit sphere, with the eye above longitude 0 and a terrain point
  that was sampled at longitude 90, \<^verbatim>\<open>setAltitude(200)\<close> moves the eye along the eye's
  direction \<open>(0, 0, 1)\<close>, not along the surface normal \<open>(1, 0, 0)\<close> at the terrain point.
\<close>

theorem setAltitude_not_surface_normal:
  "eye (fst (setAltitude (sphere_planet 1) (camera_at_rest\<lparr>terrainPoint := Vec3 1 0 0\<rparr>) 200))
     = Vec3 1 0 200
   \<and> spec_setAltitude_eye (Vec3 1 1 1) (camera_at_rest\<lparr>terrainPoint := Vec3 1 0 0\<rparr>) 200
     = Vec3 201 0 0"
  by (simp add: setAltitude_def Let_def update_keeps spec_setAltitude_eye_def getSurfaceNormal_def
      normal_def camera_at_rest_def PlanetCamera_def)

subsection \<open>The apex height of a flight\<close>

lemma sqrt_half_mult:
  fixes s :: real
  shows "sqrt (1 / 2) * sqrt (if s > 0 then s else 0) = sqrt (max s 0 / 2)"
proof (cases "s > 0")
  case True
  have "sqrt (1 / 2) * sqrt s = sqrt (1 / 2 * s)"
    by (rule real_sqrt_mult[symmetric])
  also have "1 / 2 * s = max s 0 / 2"
    using True by simp
  finally show ?thesis using True by simp
next
  case False
  then show ?thesis by (simp add: max_def)
qed

lemma fly_hM_a_spec: "fly_hM_a ga gb = spec_hM (normal ga) (normal gb)"
  unfolding fly_hM_a_def spec_hM_def SQRT_HALF_def Let_def
  by (rule sqrt_half_mult)

lemma fly_max_h_spec:
  "fly_max_h h_a h_b hM = max h_a h_b + 2.5 * hM * (spec_maxAltitudeFloor h_a h_b - max h_a h_b)"
  by (simp add: fly_max_h_def spec_maxAltitudeFloor_def Let_def)

text \<open>
  C7, as the code has it. For every flight the apex height of the plan is
  \<open>max(h_a, h_b) + 2.5 hM (floor - max(h_a, h_b))\<close>: the first summand is the greater
  endpoint height, not the floor. Here \<open>hM = sqrt(max(1 - dot(dir_a, dir_b), 0) / 2)\<close> over
  the unit directions of the two ground points, and the floor is 6639613 unless an
  endpoint is higher, in which case it is that height. When the two ground directions
  coincide the apex is the greater endpoint height: no arc is added.
\<close>

theorem apex_height:
  "max_h (fly_plan P c t look up) =
     max (height (lonLat c)) (height (cartesianToLonLat P t))
     + 2.5 * spec_hM (normal (ground_a (fly_plan P c t look up)))
                     (normal (ground_b (fly_plan P c t look up)))
           * (spec_maxAltitudeFloor (height (lonLat c)) (height (cartesianToLonLat P t))
              - max (height (lonLat c)) (height (cartesianToLonLat P t)))
   \<and> ground_a (fly_plan P c t look up)
       = lonLatToCartesian P (LonLat (lon (lonLat c)) (lat (lonLat c)) 0)
   \<and> ground_b (fly_plan P c t look up)
       = lonLatToCartesian P (LonLat (lon (cartesianToLonLat P t)) (lat (cartesianToLonLat P t)) 0)
   \<and> (dot (normal (ground_a (fly_plan P c t look up)))
           (normal (ground_b (fly_plan P c t look up))) = 1
        \<longrightarrow> max_h (fly_plan P c t look up)
              = max (height (lonLat c)) (height (cartesianToLonLat P t)))"
  by (simp add: fly_plan_def Let_def fly_hM_a_spec fly_max_h_spec) (simp add: spec_hM_def)


lemma sphere_above_origin:
  "cartesianToLonLat (sphere_planet 1) (Vec3 0 0 2) = LonLat 0 0 1"
  "lonLatToCartesian (sphere_planet 1) (LonLat 0 0 0) = Vec3 0 0 1"
  by (simp_all add: sphere_planet_def atan2_def LonLat_def RADIANS_def)

lemma plan_to_itself:
  "ground_a (fly_plan (sphere_planet 1) camera_at_rest (Vec3 0 0 2) None None) = Vec3 0 0 1"
  "ground_b (fly_plan (sphere_planet 1) camera_at_rest (Vec3 0 0 2) None None) = Vec3 0 0 1"
  "height_a (fly_plan (sphere_planet 1) camera_at_rest (Vec3 0 0 2) None None) = 1"
  "height_b (fly_plan (sphere_planet 1) camera_at_rest (Vec3 0 0 2) None None) = 1"
  using sphere_above_origin
  by (simp_all add: fly_plan_def Let_def camera_at_rest_lonLat) (simp_all add: LonLat_def)

text \<open>
  The theorem on the unit sphere, for the flight of the camera at rest to its own
  position: the ground directions coincide and the apex is the camera's height 1.
\<close>

theorem apex_height_witness:
  "dot (normal (ground_a (fly_plan (sphere_planet 1) camera_at_rest (Vec3 0 0 2) None None)))
       (normal (ground_b (fly_plan (sphere_planet 1) camera_at_rest (Vec3 0 0 2) None None))) = 1
   \<and> max_h (fly_plan (sphere_planet 1) camera_at_rest (Vec3 0 0 2) None None) = 1"
proof -
  have d: "dot (normal (ground_a (fly_plan (sphere_planet 1) camera_at_rest (Vec3 0 0 2) None None)))
       (normal (ground_b (fly_plan (sphere_planet 1) camera_at_rest (Vec3 0 0 2) None None))) = 1"
    by (simp add: plan_to_itself normal_def)
  have h: "max (height (lonLat camera_at_rest))
               (height (cartesianToLonLat (sphere_planet 1) (Vec3 0 0 2))) = 1"
    by (simp add: camera_at_rest_lonLat sphere_above_origin) (simp add: LonLat_def)
  have "dot (normal (ground_a (fly_plan (sphere_planet 1) camera_at_rest (Vec3 0 0 2) None None)))
       (normal (ground_b (fly_plan (sphere_planet 1) camera_at_rest (Vec3 0 0 2) None None))) = 1
    \<longrightarrow> max_h (fly_plan (sphere_planet 1) camera_at_rest (Vec3 0 0 2) None None)
        = max (height (lonLat camera_at_rest))
              (height (cartesianToLonLat (sphere_planet 1) (Vec3 0 0 2)))"
    by (rule conjunct2[OF conjunct2[OF conjunct2[OF apex_height]]])
  with d h show ?thesis by simp
qed

text \<open>
  Against C7 as stated (the first summand is \<open>max(floor, max(h_a, h_b))\<close>): for the flight
  of the camera at rest to its own position the code's apex is 1, the spec's formula
  gives 6639613.
\<close>

theorem apex_of_flight_to_itself:
  "max_h (fly_plan (sphere_planet 1) camera_at_rest (Vec3 0 0 2) None None) = 1
   \<and> spec_apex (height (lonLat camera_at_rest))
        (height (cartesianToLonLat (sphere_planet 1) (Vec3 0 0 2)))
        (spec_hM (normal (ground_a (fly_plan (sphere_planet 1) camera_at_rest (Vec3 0 0 2) None None)))
                 (normal (ground_b (fly_plan (sphere_planet 1) camera_at_rest (Vec3 0 0 2) None None))))
      = 6639613"
proof -
  have hm: "fly_hM_a (Vec3 0 0 1) (Vec3 0 0 1) = 0"
    by (simp add: fly_hM_a_def Let_def normal_def)
  have "max_h (fly_plan (sphere_planet 1) camera_at_rest (Vec3 0 0 2) None None)
      = fly_max_h 1 1 (fly_hM_a (Vec3 0 0 1) (Vec3 0 0 1))"
    using sphere_above_origin
    by (simp add: fly_plan_def Let_def camera_at_rest_lonLat) (simp add: LonLat_def)
  then have m: "max_h (fly_plan (sphere_planet 1) camera_at_rest (Vec3 0 0 2) None None) = 1"
    by (simp add: hm fly_max_h_def)
  have "spec_apex 1 1 (spec_hM (normal (Vec3 0 0 1)) (normal (Vec3 0 0 1))) = 6639613"
    by (simp add: spec_apex_def spec_hM_def spec_maxAltitudeFloor_def normal_def)
  then show ?thesis
    using m by (simp add: plan_to_itself camera_at_rest_lonLat sphere_above_origin)
      (simp add: LonLat_def)
qed

subsection \<open>The frames of a flight plan\<close>

lemma smerp_1: "smerp a b 1 = a"
  by (cases a; cases b) simp

lemma smerp_0: "smerp a b 0 = b"
  by (cases a; cases b) simp

lemma sub_add_negate:
  "Vec3 (vx e - vx (add e (negateTo m))) (vy e - vy (add e (negateTo m)))
        (vz e - vz (add e (negateTo m))) = m"
  by (cases e; cases m) simp

lemma normal_unit: "length3 w = 1 \<Longrightarrow> normal w = w"
  by (cases w) (simp add: normal_def)

lemma length3_scale: "length3 (scale w s) = \<bar>s\<bar> * length3 w"
proof (cases w)
  case (Vec3 a b c)
  have "a * s * (a * s) + b * s * (b * s) + c * s * (c * s) = s\<^sup>2 * (a * a + b * b + c * c)"
    by (simp add: algebra_simps power2_eq_square)
  then show ?thesis
    using Vec3 by (simp add: real_sqrt_mult)
qed

lemma length3_nonneg: "0 \<le> length3 w"
  by (cases w) simp

lemma length3_eq_0: "length3 w = 0 \<longleftrightarrow> w = ZERO"
proof (cases w)
  case (Vec3 a b c)
  have "a * a + b * b + c * c = 0 \<longleftrightarrow> a = 0 \<and> b = 0 \<and> c = 0"
  proof -
    have "a * a + b * b + c * c = 0 \<longleftrightarrow> a * a + b * b = 0 \<and> c * c = 0"
      by (rule add_nonneg_eq_0_iff) simp_all
    moreover have "a * a + b * b = 0 \<longleftrightarrow> a * a = 0 \<and> b * b = 0"
      by (rule add_nonneg_eq_0_iff) simp_all
    ultimately show ?thesis by simp
  qed
  then show ?thesis using Vec3 by (simp add: ZERO_def)
qed

lemma length3_normal: "w \<noteq> ZERO \<Longrightarrow> length3 (normal w) = 1"
  using length3_nonneg[of w] length3_eq_0[of w]
  by (simp add: normal_def length3_scale)

lemma dot_scale_left: "dot (scale a s) b = s * dot a b"
  by (cases a; cases b) (simp add: algebra_simps)

lemma dot_scale_right: "dot a (scale b s) = s * dot a b"
  by (cases a; cases b) (simp add: algebra_simps)

lemma dot_cross_right: "dot (cross a b) b = 0"
  by (cases a; cases b) (simp add: algebra_simps)

lemma dot_self: "dot w w = (length3 w)\<^sup>2"
proof (cases w)
  case (Vec3 a b c)
  have "0 \<le> a * a + b * b + c * c" by simp
  then show ?thesis using Vec3 by simp
qed

lemma cross_cross_left: "cross (cross a b) c = sub (scale b (dot a c)) (scale a (dot b c))"
  by (cases a; cases b; cases c) (simp add: algebra_simps)

lemma cross_cross_right: "cross a (cross b c) = sub (scale b (dot a c)) (scale c (dot a b))"
  by (cases a; cases b; cases c) (simp add: algebra_simps)

lemma scale_1: "scale w 1 = w" and scale_0: "scale w 0 = ZERO" and sub_ZERO: "sub w ZERO = w"
  by (cases w; simp add: ZERO_def)+


lemma fly_frame_first:
  assumes "getRayIntersectionEllipsoid P \<lparr>origin = ZERO, direction = normal (ground_a pl)\<rparr>
             = Some g"
  shows "fly_frame P pl 1 =
     Inr \<lparr>f_eye = add g (scale (normal (ground_a pl)) (height_a pl)),
          f_n = normal (n_a pl),
          f_u = normal (cross (v_a pl) (n_a pl)),
          f_v = cross (normal (n_a pl)) (normal (cross (v_a pl) (n_a pl)))\<rparr>"
  using assms
  by (simp add: fly_frame_def Let_def smerp_1 sub_add_negate)

lemma fly_frame_last:
  assumes "getRayIntersectionEllipsoid P \<lparr>origin = ZERO, direction = normal (ground_b pl)\<rparr>
             = Some g"
  shows "fly_frame P pl 0 =
     Inr \<lparr>f_eye = add g (scale (normal (ground_b pl)) (height_b pl)),
          f_n = normal (n_b pl),
          f_u = normal (cross (v_b pl) (n_b pl)),
          f_v = cross (normal (n_b pl)) (normal (cross (v_b pl) (n_b pl)))\<rparr>"
  using assms
  by (simp add: fly_frame_def Let_def smerp_0 sub_add_negate)

lemma orthonormal_rebuild:
  assumes "length3 n = 1" "length3 u = 1" "dot v n = 0" "u = cross v n"
  shows "normal n = n" "normal (cross v n) = u" "cross (normal n) (normal (cross v n)) = v"
proof -
  show n: "normal n = n" using assms(1) by (rule normal_unit)
  show u: "normal (cross v n) = u" using assms(2,4) normal_unit by simp
  have "cross n (cross v n) = sub (scale v (dot n n)) (scale n (dot n v))"
    by (rule cross_cross_right)
  also have "dot n n = 1" using assms(1) by (simp add: dot_self)
  also have "dot n v = 0" using assms(3) by (cases n; cases v) (simp add: algebra_simps)
  finally have "cross n (cross v n) = v"
    by (simp add: scale_1 scale_0 sub_ZERO)
  then show "cross (normal n) (normal (cross v n)) = v"
    using n u assms(4) by simp
qed

lemma fly_plan_fields:
  "ground_a (fly_plan P c t look up)
     = lonLatToCartesian P (LonLat (lon (lonLat c)) (lat (lonLat c)) 0)"
  "ground_b (fly_plan P c t look up)
     = lonLatToCartesian P (LonLat (lon (cartesianToLonLat P t)) (lat (cartesianToLonLat P t)) 0)"
  "height_a (fly_plan P c t look up) = height (lonLat c)"
  "height_b (fly_plan P c t look up) = height (cartesianToLonLat P t)"
  "v_a (fly_plan P c t look up) = cam_v c"
  "n_a (fly_plan P c t look up) = cam_n c"
  "n_b (fly_plan P c t look up) = normal (sub t (fly_look P look))"
  "v_b (fly_plan P c t look up)
     = cross (normal (sub t (fly_look P look)))
             (normal (cross (fly_up up) (sub t (fly_look P look))))"
  by (simp_all add: fly_plan_def Let_def fly_look_def fly_up_def
      split: option.splits look_arg.splits)

lemma camera_set_fields:
  "cam_n (camera_set c e look up) = normal (sub e look)"
  "cam_u (camera_set c e look up) = normal (cross up (sub e look))"
  "cam_v (camera_set c e look up) = cross (normal (sub e look)) (normal (cross up (sub e look)))"
  "eye (camera_set c e look up) = e"
  by (simp_all add: camera_set_def Let_def)

lemma end_basis_rebuild:
  assumes "w \<noteq> ZERO" "cross up w \<noteq> ZERO"
  shows "normal (normal w) = normal w"
    and "normal (cross (cross (normal w) (normal (cross up w))) (normal w)) = normal (cross up w)"
    and "cross (normal (normal w))
           (normal (cross (cross (normal w) (normal (cross up w))) (normal w)))
         = cross (normal w) (normal (cross up w))"
proof -
  let ?n = "normal w" and ?u = "normal (cross up w)"
  have n1: "length3 ?n = 1" using assms(1) by (rule length3_normal)
  have u1: "length3 ?u = 1" using assms(2) by (rule length3_normal)
  have un: "dot ?u ?n = 0"
    by (simp add: normal_def dot_scale_left dot_scale_right dot_cross_right)
  show n: "normal ?n = ?n" using n1 by (rule normal_unit)
  have "cross (cross ?n ?u) ?n = sub (scale ?u (dot ?n ?n)) (scale ?n (dot ?u ?n))"
    by (rule cross_cross_left)
  then have c: "cross (cross ?n ?u) ?n = ?u"
    using n1 un by (simp add: dot_self scale_1 scale_0 sub_ZERO)
  show u: "normal (cross (cross ?n ?u) ?n) = ?u"
    unfolding c using u1 by (rule normal_unit)
  show "cross (normal ?n) (normal (cross (cross ?n ?u) ?n)) = cross ?n ?u"
    unfolding u n ..
qed


lemma planned_frames_nth:
  "i \<le> numFrames c \<Longrightarrow>
   planned_frames P c t look up ! i
     = projr (fly_frame P (fly_plan P c t look up) (ease_d (numFrames c) i))"
  unfolding planned_frames_def
  by (subst nth_map) (simp_all del: upt_Suc add: nth_upt)

lemma ease_d_ends: "0 < nf \<Longrightarrow> ease_d nf 0 = 1" "0 < nf \<Longrightarrow> ease_d nf nf = 0"
  by (simp_all add: ease_d_def Let_def)

lemma hits_Some:
  "hits P \<Longrightarrow> getRayIntersectionEllipsoid P \<lparr>origin = ZERO, direction = g\<rparr>
     = Some (the (getRayIntersectionEllipsoid P \<lparr>origin = ZERO, direction = g\<rparr>))"
  by (auto simp: hits_def)

text \<open>
  The eyes and the bases of the first and of the last planned frame.
\<close>

lemma radial_height_hit:
  assumes "radial_height P e"
  shows "\<exists>g. getRayIntersectionEllipsoid P
            \<lparr>origin = ZERO,
             direction = normal (lonLatToCartesian P
                 (LonLat (lon (cartesianToLonLat P e)) (lat (cartesianToLonLat P e)) 0))\<rparr>
          = Some g
       \<and> add g (scale (normal (lonLatToCartesian P
                 (LonLat (lon (cartesianToLonLat P e)) (lat (cartesianToLonLat P e)) 0)))
                (height (cartesianToLonLat P e))) = e"
  using assms by (simp add: radial_height_def Let_def split: option.splits)

lemma radial_heightI:
  assumes "cartesianToLonLat P e = ll"
    and "normal (lonLatToCartesian P (LonLat (lon ll) (lat ll) 0)) = dir"
    and "getRayIntersectionEllipsoid P \<lparr>origin = ZERO, direction = dir\<rparr> = Some g"
    and "add g (scale dir (height ll)) = e"
  shows "radial_height P e"
  unfolding radial_height_def Let_def assms(1) assms(2) assms(3) option.case
  by (rule assms(4))

lemma planned_frames_first_eye:
  assumes "0 < numFrames c" and "lonLat c = cartesianToLonLat P (eye c)"
    and "radial_height P (eye c)"
  shows "f_eye (planned_frames P c t look up ! 0) = eye c"
proof -
  from radial_height_hit[OF assms(3)] obtain g where
    g: "getRayIntersectionEllipsoid P
            \<lparr>origin = ZERO, direction = normal (ground_a (fly_plan P c t look up))\<rparr> = Some g"
    and e: "add g (scale (normal (ground_a (fly_plan P c t look up))) (height (lonLat c))) = eye c"
    unfolding fly_plan_fields assms(2) by blast
  show ?thesis
    using fly_frame_first[OF g] e
    by (simp add: planned_frames_nth ease_d_ends[OF assms(1)] fly_plan_fields)
qed

lemma planned_frames_last_eye:
  assumes "0 < numFrames c" and "radial_height P t"
  shows "f_eye (planned_frames P c t look up ! numFrames c) = t"
proof -
  from radial_height_hit[OF assms(2)] obtain g where
    g: "getRayIntersectionEllipsoid P
            \<lparr>origin = ZERO, direction = normal (ground_b (fly_plan P c t look up))\<rparr> = Some g"
    and e: "add g (scale (normal (ground_b (fly_plan P c t look up)))
                    (height (cartesianToLonLat P t))) = t"
    unfolding fly_plan_fields by blast
  show ?thesis
    using fly_frame_last[OF g] e
    by (simp add: planned_frames_nth ease_d_ends[OF assms(1)] fly_plan_fields)
qed

lemma planned_frames_first_basis:
  assumes "0 < numFrames c" and "orthonormal (cam_u c) (cam_v c) (cam_n c)"
    and "\<exists>g. getRayIntersectionEllipsoid P
            \<lparr>origin = ZERO, direction = normal (ground_a (fly_plan P c t look up))\<rparr> = Some g"
  shows "f_n (planned_frames P c t look up ! 0) = cam_n c"
    "f_u (planned_frames P c t look up ! 0) = cam_u c"
    "f_v (planned_frames P c t look up ! 0) = cam_v c"
proof -
  from assms(2) have on: "length3 (cam_n c) = 1" "length3 (cam_u c) = 1"
    "dot (cam_v c) (cam_n c) = 0" "cam_u c = cross (cam_v c) (cam_n c)"
    unfolding orthonormal_def by blast+
  from assms(3) obtain g where g: "getRayIntersectionEllipsoid P
            \<lparr>origin = ZERO, direction = normal (ground_a (fly_plan P c t look up))\<rparr> = Some g"
    by blast
  show "f_n (planned_frames P c t look up ! 0) = cam_n c"
    "f_u (planned_frames P c t look up ! 0) = cam_u c"
    "f_v (planned_frames P c t look up ! 0) = cam_v c"
    using fly_frame_first[OF g] orthonormal_rebuild[OF on]
    by (simp_all add: planned_frames_nth ease_d_ends[OF assms(1)] fly_plan_fields)
qed

lemma planned_frames_last_basis:
  assumes "0 < numFrames c" and "sub t (fly_look P look) \<noteq> ZERO"
    and "cross (fly_up up) (sub t (fly_look P look)) \<noteq> ZERO"
    and "\<exists>g. getRayIntersectionEllipsoid P
            \<lparr>origin = ZERO, direction = normal (ground_b (fly_plan P c t look up))\<rparr> = Some g"
  shows "f_n (planned_frames P c t look up ! numFrames c)
           = cam_n (camera_set c t (fly_look P look) (fly_up up))"
    "f_u (planned_frames P c t look up ! numFrames c)
           = cam_u (camera_set c t (fly_look P look) (fly_up up))"
    "f_v (planned_frames P c t look up ! numFrames c)
           = cam_v (camera_set c t (fly_look P look) (fly_up up))"
proof -
  from assms(4) obtain g where g: "getRayIntersectionEllipsoid P
            \<lparr>origin = ZERO, direction = normal (ground_b (fly_plan P c t look up))\<rparr> = Some g"
    by blast
  show "f_n (planned_frames P c t look up ! numFrames c)
           = cam_n (camera_set c t (fly_look P look) (fly_up up))"
    "f_u (planned_frames P c t look up ! numFrames c)
           = cam_u (camera_set c t (fly_look P look) (fly_up up))"
    "f_v (planned_frames P c t look up ! numFrames c)
           = cam_v (camera_set c t (fly_look P look) (fly_up up))"
    using fly_frame_last[OF g] end_basis_rebuild[OF assms(2,3)]
    by (simp_all add: planned_frames_nth ease_d_ends[OF assms(1)] fly_plan_fields
          camera_set_fields)
qed

lemma frame_eq_pose:
  "f_eye f = eye c \<Longrightarrow> f_n f = cam_n c \<Longrightarrow> f_u f = cam_u c \<Longrightarrow> f_v f = cam_v c
    \<Longrightarrow> f = pose c"
  by (cases f) (simp add: pose_def)

text \<open>
  On a spherical planet every point other than the centre lies on the ray from the centre
  through its ground point, at its geodetic height.
\<close>

lemma sin_cos_atan2:
  assumes "x \<noteq> 0 \<or> z \<noteq> 0"
  shows "sin (atan2 x z) = x / sqrt (x * x + z * z)"
    and "cos (atan2 x z) = z / sqrt (x * x + z * z)"
proof -
  let ?rho = "sqrt (x * x + z * z)"
  have tan_sq: "sqrt (1 + (x / z)\<^sup>2) = ?rho / \<bar>z\<bar>" if "z \<noteq> 0"
  proof -
    have "1 + (x / z)\<^sup>2 = (x * x + z * z) / (z * z)"
      using that by (simp add: field_simps power2_eq_square)
    then show ?thesis
      by (simp add: real_sqrt_divide)
  qed
  consider (pos) "0 < z" | (neg) "z < 0" | (zero) "z = 0" by linarith
  then have "sin (atan2 x z) = x / ?rho \<and> cos (atan2 x z) = z / ?rho"
  proof cases
    case pos
    then show ?thesis
      using tan_sq[of] by (simp add: atan2_def sin_arctan cos_arctan)
  next
    case neg
    then have z: "z \<noteq> 0" by simp
    show ?thesis
      using neg tan_sq[OF z] by (simp add: atan2_def sin_arctan cos_arctan)
  next
    case zero
    then have "x \<noteq> 0" using assms by simp
    then show ?thesis
      using zero by (auto simp: atan2_def real_sqrt_mult_self sgn_if field_simps)
  qed
  then show "sin (atan2 x z) = x / sqrt (x * x + z * z)"
    and "cos (atan2 x z) = z / sqrt (x * x + z * z)" by simp_all
qed

lemma sphere_direction:
  assumes "Vec3 x y z \<noteq> ZERO"
  shows "Vec3 (cos (arcsin (y / length3 (Vec3 x y z))) * sin (atan2 x z))
              (sin (arcsin (y / length3 (Vec3 x y z))))
              (cos (arcsin (y / length3 (Vec3 x y z))) * cos (atan2 x z))
         = normal (Vec3 x y z)"
proof -
  let ?L = "length3 (Vec3 x y z)" and ?rho = "sqrt (x * x + z * z)"
  have L: "0 < ?L"
    using assms length3_nonneg[of "Vec3 x y z"] length3_eq_0[of "Vec3 x y z"] by linarith
  have L2: "?L * ?L = x * x + y * y + z * z"
    by simp
  have "y * y \<le> ?L * ?L" unfolding L2 by simp
  then have "\<bar>y\<bar> \<le> ?L"
    using L by (metis abs_le_square_iff abs_of_pos power2_eq_square)
  then have t: "- 1 \<le> y / ?L" "y / ?L \<le> 1"
    using L by (simp_all add: field_simps abs_le_iff)
  have s: "sin (arcsin (y / ?L)) = y / ?L"
    using t by (rule sin_arcsin)
  have "1 - (y / ?L)\<^sup>2 = (x * x + z * z) / (?L * ?L)"
    using L unfolding L2 power2_eq_square
    by (simp add: field_simps)
  then have "sqrt (1 - (y / ?L)\<^sup>2) = ?rho / ?L"
    using L by (simp add: real_sqrt_divide del: length3.simps)
  then have c: "cos (arcsin (y / ?L)) = ?rho / ?L"
    using cos_arcsin[OF t] by simp
  have "?rho / ?L * sin (atan2 x z) = x / ?L \<and> ?rho / ?L * cos (atan2 x z) = z / ?L"
  proof (cases "x = 0 \<and> z = 0")
    case True
    then show ?thesis by simp
  next
    case False
    then have nz: "x \<noteq> 0 \<or> z \<noteq> 0" by blast
    then have "0 < x * x + z * z"
      by (metis add_pos_nonneg add_nonneg_pos zero_le_square mult_eq_0_iff less_le not_less)
    then have rho: "0 < ?rho" by (rule real_sqrt_gt_zero)
    show ?thesis
      unfolding sin_cos_atan2[OF nz] using rho by simp
  qed
  then show ?thesis
    unfolding c s by (simp add: normal_def del: length3.simps)
qed

lemma normal_scale_unit:
  assumes "0 < r" and "length3 w = 1"
  shows "normal (scale w r) = w"
proof -
  have "length3 (scale w r) = r"
    using assms by (simp add: length3_scale)
  then have "normal (scale w r) = scale (scale w r) (1 / r)"
    by (simp add: normal_def)
  also have "\<dots> = w"
    using assms(1) by (cases w) simp
  finally show ?thesis .
qed

lemma sphere_planet_radial:
  assumes "0 < r" and "e \<noteq> ZERO"
  shows "radial_height (sphere_planet r) e"
proof -
  obtain x y z where e: "e = Vec3 x y z" by (cases e)
  let ?L = "length3 e"
  have L: "0 < ?L"
    using assms(2) length3_nonneg[of e] length3_eq_0[of e] by linarith
  have n1: "length3 (normal e) = 1"
    using assms(2) by (rule length3_normal)
  have ll: "cartesianToLonLat (sphere_planet r) e
      = LonLat (atan2 x z * DEGREES) (arcsin (y / ?L) * DEGREES) (?L - r)"
    unfolding e by (simp add: sphere_planet_def)
  have ground: "lonLatToCartesian (sphere_planet r)
        (LonLat (lon (LonLat (atan2 x z * DEGREES) (arcsin (y / ?L) * DEGREES) (?L - r)))
                (lat (LonLat (atan2 x z * DEGREES) (arcsin (y / ?L) * DEGREES) (?L - r))) 0)
      = scale (normal e) r"
    unfolding e sphere_direction[OF assms(2)[unfolded e], symmetric]
    by (simp add: sphere_planet_def LonLat_def DEGREES_def RADIANS_def del: length3.simps)
  have dir: "normal (scale (normal e) r) = normal e"
    using assms(1) n1 by (rule normal_scale_unit)
  have hit: "getRayIntersectionEllipsoid (sphere_planet r) \<lparr>origin = ZERO, direction = normal e\<rparr>
      = Some (scale (normal e) r)"
    using sphere_hit_centre[of r "normal e"] assms(1) by simp
  have ret: "add (scale (normal e) r) (scale (normal e) (height (LonLat (atan2 x z * DEGREES) (arcsin (y / ?L) * DEGREES) (?L - r)))) = e"
    using L unfolding e by (simp add: normal_def LonLat_def field_simps del: length3.simps)
  show ?thesis
    by (rule radial_heightI[OF ll _ hit ret]) (simp add: ground dir)
qed

text \<open>
  C1, as the code has it. Let the start pose have an orthonormal basis and an up-to-date
  geodetic position, let the end pose not be degenerate (the target is not the look point,
  and the up vector is not parallel to the line of sight), and let both the start eye and
  the target lie on the ray from the centre through their ground point, at their geodetic
  height (on every sphere they do, by the lemma \<open>sphere_planet_radial\<close>). Then
  \<^verbatim>\<open>flyCartesian\<close> builds exactly \<open>numFrames + 1\<close> frames; frame 0 is the start pose and
  the last frame is the end pose, the pose that \<^verbatim>\<open>set(target, look, up)\<close> gives.
  \<^verbatim>\<open>prepareFrame\<close> consumes the plan in index order: after tick number \<open>k + 1\<close> the camera
  has the pose of frame \<open>k\<close>, so the poses applied start at the start pose, after the
  first tick, and end at the end pose, after tick number \<open>numFrames + 1\<close>. (The planner's
  rays are assumed to hit the ellipsoid and \<open>numFrames\<close> to be positive.)
\<close>

theorem flight_plan_frames:
  assumes "hits P" and "0 < numFrames c"
    and "orthonormal (cam_u c) (cam_v c) (cam_n c)"
    and "lonLat c = cartesianToLonLat P (eye c)"
    and "radial_height P (eye c)" and "radial_height P t"
    and "sub t (fly_look P look) \<noteq> ZERO"
    and "cross (fly_up up) (sub t (fly_look P look)) \<noteq> ZERO"
  shows "\<exists>c1 ev. flyCartesian inert P c t look up cb scb = Inr (c1, ev)
     \<and> length (framesArr c1) = numFrames c + 1
     \<and> framesArr c1 ! 0 = pose c
     \<and> framesArr c1 ! numFrames c = pose (camera_set c t (fly_look P look) (fly_up up))
     \<and> (\<forall>k\<le>numFrames c. \<exists>c' T. run P (replicate (Suc k) PrepareFrame) c1 = Inr (c', T)
            \<and> pose c' = framesArr c1 ! k)
     \<and> (\<exists>c' T. run P [PrepareFrame] c1 = Inr (c', T) \<and> pose c' = pose c)
     \<and> (\<exists>c' T. run P (replicate (Suc (numFrames c)) PrepareFrame) c1 = Inr (c', T)
            \<and> pose c' = pose (camera_set c t (fly_look P look) (fly_up up)))"
proof -
  let ?F = "planned_frames P c t look up"
  let ?c1 = "c\<lparr>flying := True, framesArr := ?F,
            framesCounter := int (numFrames c), completeCallback := cb\<rparr>"
  let ?e = "camera_set c t (fly_look P look) (fly_up up)"
  have fly: "flyCartesian inert P c t look up cb scb
      = Inr (?c1, free_events (keyLock c) @ start_events scb)"
    by (rule flyCartesian_Inr[OF assms(1)])
  have len: "length (framesArr ?c1) = numFrames c + 1"
    by (simp add: length_planned_frames)
  have hit: "\<exists>g. getRayIntersectionEllipsoid P \<lparr>origin = ZERO, direction = w\<rparr> = Some g" for w
    using hits_Some[OF assms(1)] by blast
  have first: "framesArr ?c1 ! 0 = pose c"
    using planned_frames_first_eye[OF assms(2,4,5)]
      planned_frames_first_basis[OF assms(2,3) hit]
    by (simp add: frame_eq_pose)
  have last: "framesArr ?c1 ! numFrames c = pose ?e"
    using planned_frames_last_eye[OF assms(2,6)]
      planned_frames_last_basis[OF assms(2,7,8) hit]
    by (simp add: frame_eq_pose camera_set_fields)
  have ticks: "\<forall>k\<le>numFrames c. \<exists>c' T. run P (replicate (Suc k) PrepareFrame) ?c1 = Inr (c', T)
            \<and> pose c' = framesArr ?c1 ! k"
  proof (intro allI impI)
    fix k assume k: "k \<le> numFrames c"
    have "\<exists>c' ev. run P (replicate (Suc k) PrepareFrame) ?c1 = Inr (c', ev)
            \<and> pose c' = framesArr ?c1 ! (numFrames ?c1 - numFrames c + k)"
      using k by (intro run_ticks_pose) (simp_all add: length_planned_frames)
    then show "\<exists>c' T. run P (replicate (Suc k) PrepareFrame) ?c1 = Inr (c', T)
            \<and> pose c' = framesArr ?c1 ! k"
      by simp
  qed
  have one: "[PrepareFrame] = replicate (Suc 0) PrepareFrame"
    by simp
  have t0: "\<exists>c' T. run P [PrepareFrame] ?c1 = Inr (c', T) \<and> pose c' = pose c"
    unfolding one using ticks[rule_format, of 0] first
    by (simp del: replicate_Suc run_with.simps)
  have tn: "\<exists>c' T. run P (replicate (Suc (numFrames c)) PrepareFrame) ?c1 = Inr (c', T)
            \<and> pose c' = pose ?e"
    using ticks[rule_format, of "numFrames c"] last
    by (simp del: replicate_Suc run_with.simps)
  from fly len first last ticks t0 tn show ?thesis
    by blast
qed


lemma sqrt_9: "sqrt 9 = 3"
  using real_sqrt_abs[of 3] by simp

lemma sphere_three_above:
  "cartesianToLonLat (sphere_planet 1) (Vec3 0 0 3) = LonLat 0 0 2"
  by (simp add: sphere_planet_def atan2_def LonLat_def sqrt_9)

lemma sphere_hit_z:
  "getRayIntersectionEllipsoid (sphere_planet 1) \<lparr>origin = ZERO, direction = Vec3 0 0 1\<rparr>
     = Some (Vec3 0 0 1)"
  by (simp add: sphere_planet_def sphere_hit_def ZERO_def Let_def)

lemma normal_z: "normal (Vec3 0 0 1) = Vec3 0 0 1" "normal (Vec3 0 0 3) = Vec3 0 0 1"
  "normal (Vec3 3 0 0) = Vec3 1 0 0" "normal (Vec3 1 0 0) = Vec3 1 0 0"
  "normal (Vec3 0 0 (- 3)) = Vec3 0 0 (- 1)"
  by (simp_all add: normal_def sqrt_9)

lemma flight_up_plan:
  "ground_a (fly_plan (sphere_planet 1) camera_at_rest (Vec3 0 0 3) None None) = Vec3 0 0 1"
  "ground_b (fly_plan (sphere_planet 1) camera_at_rest (Vec3 0 0 3) None None) = Vec3 0 0 1"
  "height_a (fly_plan (sphere_planet 1) camera_at_rest (Vec3 0 0 3) None None) = 1"
  "height_b (fly_plan (sphere_planet 1) camera_at_rest (Vec3 0 0 3) None None) = 2"
  using sphere_above_origin(2)
  by (simp_all add: fly_plan_fields camera_at_rest_lonLat sphere_three_above)
     (simp_all add: LonLat_def)

lemma camera_at_rest_basis:
  "eye camera_at_rest = Vec3 0 0 2" "cam_u camera_at_rest = Vec3 1 0 0"
  "cam_v camera_at_rest = Vec3 0 1 0" "cam_n camera_at_rest = Vec3 0 0 1"
  by (simp_all add: camera_at_rest_def PlanetCamera_def Let_def)

lemma orthonormal_camera_at_rest:
  "orthonormal (cam_u camera_at_rest) (cam_v camera_at_rest) (cam_n camera_at_rest)"
  by (simp add: camera_at_rest_basis orthonormal_def)

lemma sphere_hit_x:
  "getRayIntersectionEllipsoid (sphere_planet 1) \<lparr>origin = ZERO, direction = Vec3 1 0 0\<rparr>
     = Some (Vec3 1 0 0)"
  by (simp add: sphere_planet_def sphere_hit_def ZERO_def Let_def)

lemma sphere_east:
  "cartesianToLonLat (sphere_planet 1) (Vec3 3 0 0) = LonLat 90 0 2"
  "lonLatToCartesian (sphere_planet 1) (LonLat 90 0 0) = Vec3 1 0 0"
  by (simp_all add: sphere_planet_def atan2_def LonLat_def RADIANS_def DEGREES_def sqrt_9)

lemma camera_at_rest_geodetic:
  "lonLat camera_at_rest = cartesianToLonLat (sphere_planet 1) (eye camera_at_rest)"
  by (simp add: camera_at_rest_def PlanetCamera_def Let_def)

lemma radial_height_sphere_points:
  "radial_height (sphere_planet 1) (Vec3 0 0 2)"
  "radial_height (sphere_planet 1) (Vec3 3 0 0)"
proof -
  show "radial_height (sphere_planet 1) (Vec3 0 0 2)"
    by (rule radial_heightI[OF sphere_above_origin(1) _ sphere_hit_z])
       (simp_all add: LonLat_def normal_z sphere_above_origin(2)[unfolded LonLat_def])
  show "radial_height (sphere_planet 1) (Vec3 3 0 0)"
    by (rule radial_heightI[OF sphere_east(1) _ sphere_hit_x])
       (simp_all add: LonLat_def normal_z sphere_east(2)[unfolded LonLat_def])
qed

lemma pose_east:
  "pose (camera_set camera_at_rest (Vec3 3 0 0) (fly_look (sphere_planet 1) None) (fly_up None))
     = \<lparr>f_eye = Vec3 3 0 0, f_n = Vec3 1 0 0, f_u = Vec3 0 0 (- 1), f_v = Vec3 0 1 0\<rparr>"
  by (simp add: pose_def camera_set_fields fly_look_def fly_up_def ZERO_def UP_def normal_z)

lemma pose_camera_at_rest:
  "pose camera_at_rest
     = \<lparr>f_eye = Vec3 0 0 2, f_n = Vec3 0 0 1, f_u = Vec3 1 0 0, f_v = Vec3 0 1 0\<rparr>"
  by (simp add: pose_def camera_at_rest_basis)

text \<open>
  The theorem on the unit sphere: the camera at rest, two radii from the centre above
  longitude 0, flies to the point three radii from the centre above longitude 90.
\<close>

theorem flight_plan_frames_witness:
  "hits (sphere_planet 1) \<and> 0 < numFrames camera_at_rest
   \<and> orthonormal (cam_u camera_at_rest) (cam_v camera_at_rest) (cam_n camera_at_rest)
   \<and> lonLat camera_at_rest = cartesianToLonLat (sphere_planet 1) (eye camera_at_rest)
   \<and> radial_height (sphere_planet 1) (eye camera_at_rest)
   \<and> radial_height (sphere_planet 1) (Vec3 3 0 0)
   \<and> sub (Vec3 3 0 0) (fly_look (sphere_planet 1) None) \<noteq> ZERO
   \<and> cross (fly_up None) (sub (Vec3 3 0 0) (fly_look (sphere_planet 1) None)) \<noteq> ZERO
   \<and> (\<exists>c1 ev. flyCartesian inert (sphere_planet 1) camera_at_rest (Vec3 3 0 0) None None None None
                 = Inr (c1, ev)
     \<and> length (framesArr c1) = 50 + 1
     \<and> framesArr c1 ! 0 =
         \<lparr>f_eye = Vec3 0 0 2, f_n = Vec3 0 0 1, f_u = Vec3 1 0 0, f_v = Vec3 0 1 0\<rparr>
     \<and> framesArr c1 ! 50 =
         \<lparr>f_eye = Vec3 3 0 0, f_n = Vec3 1 0 0, f_u = Vec3 0 0 (- 1), f_v = Vec3 0 1 0\<rparr>
     \<and> (\<forall>k\<le>50. \<exists>c' T. run (sphere_planet 1) (replicate (Suc k) PrepareFrame) c1 = Inr (c', T)
            \<and> pose c' = framesArr c1 ! k)
     \<and> (\<exists>c' T. run (sphere_planet 1) [PrepareFrame] c1 = Inr (c', T)
            \<and> pose c' =
         \<lparr>f_eye = Vec3 0 0 2, f_n = Vec3 0 0 1, f_u = Vec3 1 0 0, f_v = Vec3 0 1 0\<rparr>)
     \<and> (\<exists>c' T. run (sphere_planet 1) (replicate (Suc 50) PrepareFrame) c1 = Inr (c', T)
            \<and> pose c' =
         \<lparr>f_eye = Vec3 3 0 0, f_n = Vec3 1 0 0, f_u = Vec3 0 0 (- 1), f_v = Vec3 0 1 0\<rparr>))"
proof -
  have h2: "0 < numFrames camera_at_rest"
    by (simp add: camera_at_rest_fields)
  have h5: "radial_height (sphere_planet 1) (eye camera_at_rest)"
    by (simp add: camera_at_rest_basis radial_height_sphere_points)
  have h7: "sub (Vec3 3 0 0) (fly_look (sphere_planet 1) None) \<noteq> ZERO"
    by (simp add: fly_look_def ZERO_def)
  have h8: "cross (fly_up None) (sub (Vec3 3 0 0) (fly_look (sphere_planet 1) None)) \<noteq> ZERO"
    by (simp add: fly_look_def fly_up_def ZERO_def UP_def)
  have "\<exists>c1 ev. flyCartesian inert (sphere_planet 1) camera_at_rest (Vec3 3 0 0) None None None None
                 = Inr (c1, ev)
     \<and> length (framesArr c1) = 50 + 1
     \<and> framesArr c1 ! 0 =
         \<lparr>f_eye = Vec3 0 0 2, f_n = Vec3 0 0 1, f_u = Vec3 1 0 0, f_v = Vec3 0 1 0\<rparr>
     \<and> framesArr c1 ! 50 =
         \<lparr>f_eye = Vec3 3 0 0, f_n = Vec3 1 0 0, f_u = Vec3 0 0 (- 1), f_v = Vec3 0 1 0\<rparr>
     \<and> (\<forall>k\<le>50. \<exists>c' T. run (sphere_planet 1) (replicate (Suc k) PrepareFrame) c1 = Inr (c', T)
            \<and> pose c' = framesArr c1 ! k)
     \<and> (\<exists>c' T. run (sphere_planet 1) [PrepareFrame] c1 = Inr (c', T)
            \<and> pose c' =
         \<lparr>f_eye = Vec3 0 0 2, f_n = Vec3 0 0 1, f_u = Vec3 1 0 0, f_v = Vec3 0 1 0\<rparr>)
     \<and> (\<exists>c' T. run (sphere_planet 1) (replicate (Suc 50) PrepareFrame) c1 = Inr (c', T)
            \<and> pose c' =
         \<lparr>f_eye = Vec3 3 0 0, f_n = Vec3 1 0 0, f_u = Vec3 0 0 (- 1), f_v = Vec3 0 1 0\<rparr>)"
    using flight_plan_frames[OF hits_sphere_planet h2 orthonormal_camera_at_rest
        camera_at_rest_geodetic h5 radial_height_sphere_points(2) h7 h8, of None None]
    unfolding pose_east pose_camera_at_rest camera_at_rest_fields(2) .
  then show ?thesis
    using hits_sphere_planet[of 1] h2 orthonormal_camera_at_rest camera_at_rest_geodetic h5
      radial_height_sphere_points(2) h7 h8 by blast
qed

text \<open>
  Against C1 as stated (frame 0 has the end pose, the last frame the start pose): in the
  same flight the eye of frame 0 is the start eye \<open>(0, 0, 2)\<close> and the eye of frame 50 is
  the target \<open>(0, 0, 3)\<close>.
\<close>

theorem first_frame_is_start:
  "map_sum id (\<lambda>r. (f_eye (framesArr (fst r) ! 0), f_eye (framesArr (fst r) ! 50)))
     (flyCartesian inert (sphere_planet 1) camera_at_rest (Vec3 0 0 3) None None None None)
     = Inr (Vec3 0 0 2, Vec3 0 0 3)
   \<and> eye camera_at_rest = Vec3 0 0 2"
proof -
  let ?pl = "fly_plan (sphere_planet 1) camera_at_rest (Vec3 0 0 3) None None"
  have pos: "0 < numFrames camera_at_rest" and n: "numFrames camera_at_rest = 50"
    by (simp_all add: camera_at_rest_fields)
  have f0: "f_eye (planned_frames (sphere_planet 1) camera_at_rest (Vec3 0 0 3) None None ! 0)
      = Vec3 0 0 2"
    using fly_frame_first[of "sphere_planet 1" ?pl "Vec3 0 0 1"] sphere_hit_z
    by (simp add: planned_frames_nth ease_d_ends[OF pos] flight_up_plan normal_z)
  have "f_eye (planned_frames (sphere_planet 1) camera_at_rest (Vec3 0 0 3) None None
               ! numFrames camera_at_rest) = Vec3 0 0 3"
    using fly_frame_last[of "sphere_planet 1" ?pl "Vec3 0 0 1"] sphere_hit_z
    by (simp add: planned_frames_nth ease_d_ends[OF pos] flight_up_plan normal_z)
  then have f50: "f_eye (planned_frames (sphere_planet 1) camera_at_rest (Vec3 0 0 3) None None ! 50)
      = Vec3 0 0 3"
    unfolding n .
  show ?thesis
    by (simp add: flyCartesian_Inr[OF hits_sphere_planet] f0 f50 camera_at_rest_basis)
qed

subsection \<open>The geodetic entry points\<close>













subsection \<open>Flights between antipodal points\<close>

lemma length3_z: "length3 (Vec3 0 0 a) = \<bar>a\<bar>"
  by simp

lemma normal_neg_z: "a < 0 \<Longrightarrow> normal (Vec3 0 0 a) = Vec3 0 0 (- 1)"
  by (simp add: normal_def)

lemma normal_pos_z: "0 < a \<Longrightarrow> normal (Vec3 0 0 a) = Vec3 0 0 1"
  by (simp add: normal_def)

lemma tiny_lonLat: "lonLat tiny_camera = LonLat 0 0 (1 / 10000)"
  unfolding tiny_camera_def PlanetCamera_def Let_def sphere_planet_def
  by (simp add: atan2_def LonLat_def length3_z del: length3.simps)

lemma tiny_antipode:
  "cartesianToLonLat (sphere_planet (1 / 10000)) (Vec3 0 0 (- (1 / 5000))) = LonLat 180 0 (1 / 10000)"
  unfolding sphere_planet_def
  by (simp add: atan2_def LonLat_def length3_z DEGREES_def del: length3.simps)

lemma tiny_grounds:
  "lonLatToCartesian (sphere_planet (1 / 10000)) (LonLat 0 0 0) = Vec3 0 0 (1 / 10000)"
  "lonLatToCartesian (sphere_planet (1 / 10000)) (LonLat 180 0 0) = Vec3 0 0 (- (1 / 10000))"
  "lonLatToCartesian (sphere_planet (1 / 10000)) (LonLat 90 0 0) = Vec3 (1 / 10000) 0 0"
  by (simp_all add: sphere_planet_def LonLat_def RADIANS_def)


lemma fly_frame_eye:
  assumes "getRayIntersectionEllipsoid P
             \<lparr>origin = ZERO, direction = normal (smerp (ground_a pl) (ground_b pl) d)\<rparr> = Some g"
  shows "map_sum id f_eye (fly_frame P pl d) =
     Inr (add g (scale (normal (smerp (ground_a pl) (ground_b pl) d))
                   (height_a pl * d * d * d + max_h pl * 3 * d * d * (1 - d)
                    + max_h pl * 3 * d * (1 - d) * (1 - d)
                    + height_b pl * (1 - d) * (1 - d) * (1 - d))))"
  using assms by (simp add: fly_frame_def Let_def)

lemma bernstein_pos:
  fixes q h M :: real
  assumes "0 < q" "q < 1" "0 < h" "0 < M"
  shows "0 < h * q * q * q + M * 3 * q * q * (1 - q) + M * 3 * q * (1 - q) * (1 - q)
             + h * (1 - q) * (1 - q) * (1 - q)"
  using assms by (intro add_pos_pos mult_pos_pos) auto

lemma fly_hM_a_nonneg: "0 \<le> fly_hM_a ga gb"
  by (simp add: fly_hM_a_def SQRT_HALF_def Let_def)

lemma fly_max_h_pos:
  assumes "0 < h" "h < 6639613" "0 \<le> hM"
  shows "0 < fly_max_h h h hM"
proof -
  have e: "fly_max_h h h hM = h + 5 * hM * (6639613 - h) / 2"
    using assms by (simp add: fly_max_h_def Let_def)
  have "0 \<le> 5 * hM * (6639613 - h) / 2"
    using assms by (intro divide_nonneg_nonneg mult_nonneg_nonneg) auto
  with assms(1) show ?thesis
    unfolding e by linarith
qed

lemma ease_d_50_18: "ease_d 50 18 = 121176064 / 244140625"
  by (simp add: ease_d_def Let_def)

lemma tiny_plan:
  "ground_a (fly_plan (sphere_planet (1 / 10000)) tiny_camera (Vec3 0 0 (- (1 / 5000))) None None)
     = Vec3 0 0 (1 / 10000)"
  "ground_b (fly_plan (sphere_planet (1 / 10000)) tiny_camera (Vec3 0 0 (- (1 / 5000))) None None)
     = Vec3 0 0 (- (1 / 10000))"
  "height_a (fly_plan (sphere_planet (1 / 10000)) tiny_camera (Vec3 0 0 (- (1 / 5000))) None None)
     = 1 / 10000"
  "height_b (fly_plan (sphere_planet (1 / 10000)) tiny_camera (Vec3 0 0 (- (1 / 5000))) None None)
     = 1 / 10000"
  using tiny_grounds
  by (simp_all add: fly_plan_fields tiny_lonLat tiny_antipode) (simp_all add: LonLat_def)

lemma tiny_max_h:
  "0 < max_h (fly_plan (sphere_planet (1 / 10000)) tiny_camera (Vec3 0 0 (- (1 / 5000))) None None)"
proof -
  have "max_h (fly_plan (sphere_planet (1 / 10000)) tiny_camera (Vec3 0 0 (- (1 / 5000))) None None)
      = fly_max_h (1 / 10000) (1 / 10000)
          (fly_hM_a (lonLatToCartesian (sphere_planet (1 / 10000)) (LonLat 0 0 0))
                    (lonLatToCartesian (sphere_planet (1 / 10000)) (LonLat 180 0 0)))"
    by (simp add: fly_plan_def Let_def tiny_lonLat tiny_antipode) (simp add: LonLat_def)
  then show ?thesis
    using fly_max_h_pos[OF _ _ fly_hM_a_nonneg, of "1 / 10000"] by simp
qed

lemma tiny_blend:
  "smerp (Vec3 0 0 (1 / 10000)) (Vec3 0 0 (- (1 / 10000))) (ease_d 50 18)
     = Vec3 0 0 (- (1788497 / 2441406250000))"
  by (simp add: ease_d_50_18)


lemma smerp_antipodal: "smerp w (negateTo w) d = scale w (2 * d - 1)"
  by (cases w) (simp add: algebra_simps)

lemma ease_d_50_17: "ease_d 50 17 = 522991161 / 976562500"
  by (simp add: ease_d_def Let_def)

lemma ease_d_50_gap:
  assumes "j \<le> 50"
  shows "1788497 / 244140625 \<le> \<bar>2 * ease_d 50 j - 1\<bar>"
proof (cases "j \<le> 17")
  case True
  have "ease_d 50 17 \<le> ease_d 50 j"
    using True by (intro ease_d_antimono) simp_all
  then show ?thesis
    unfolding ease_d_50_17 by simp
next
  case False
  then have "18 \<le> j" by simp
  then have "ease_d 50 j \<le> ease_d 50 18"
    using assms by (intro ease_d_antimono) simp_all
  then show ?thesis
    unfolding ease_d_50_18 by simp
qed

lemma antipodal_blend_bound:
  assumes "7 / 50000 \<le> length3 w" and "j \<le> 50"
  shows "1 / 1000000 \<le> length3 (smerp w (negateTo w) (ease_d 50 j))"
proof -
  have "1 / 1000000 \<le> (1788497 / 244140625) * (7 / 50000 :: real)"
    by simp
  also have "\<dots> \<le> \<bar>2 * ease_d 50 j - 1\<bar> * length3 w"
    using ease_d_50_gap[OF assms(2)] assms(1) by (intro mult_mono) simp_all
  finally show ?thesis
    unfolding smerp_antipodal length3_scale .
qed

lemma planned_frame_eye:
  assumes "hits P" and "i \<le> numFrames c"
  shows "\<exists>g. getRayIntersectionEllipsoid P
            \<lparr>origin = ZERO,
             direction = normal (smerp (ground_a (fly_plan P c t look up))
                                       (ground_b (fly_plan P c t look up))
                                       (ease_d (numFrames c) i))\<rparr> = Some g
     \<and> f_eye (planned_frames P c t look up ! i) =
         add g (scale (normal (smerp (ground_a (fly_plan P c t look up))
                                       (ground_b (fly_plan P c t look up))
                                       (ease_d (numFrames c) i)))
                      (fly_height (fly_plan P c t look up) (ease_d (numFrames c) i)))"
proof -
  let ?pl = "fly_plan P c t look up" and ?d = "ease_d (numFrames c) i"
  from hits_Some[OF assms(1)] obtain g where
    g: "getRayIntersectionEllipsoid P
          \<lparr>origin = ZERO, direction = normal (smerp (ground_a ?pl) (ground_b ?pl) ?d)\<rparr> = Some g"
    by blast
  from fly_frame_eye[OF g]
  have "f_eye (projr (fly_frame P ?pl ?d)) =
      add g (scale (normal (smerp (ground_a ?pl) (ground_b ?pl) ?d)) (fly_height ?pl ?d))"
    by (cases "fly_frame P ?pl ?d") (auto simp: fly_height_def)
  with g show ?thesis
    by (simp add: planned_frames_nth[OF assms(2)])
qed

text \<open>
  C8, as the code has it. \<^verbatim>\<open>flyCartesian\<close> makes no test of the magnitude of the blended
  ground vector and substitutes nothing for it: in every plan, the eye of every frame
  lies on the ray from the centre along the normalised blend, at the frame's height above
  the point where that ray leaves the ellipsoid. With the 50 frames of the constructor, the
  blend of two antipodal ground vectors of length at least \<open>0.00014\<close> has a magnitude of
  at least \<open>0.000001\<close> at every frame. (The planner's rays are assumed to hit the
  ellipsoid.)
\<close>

theorem planner_normalises_blend:
  assumes "hits P" and "i \<le> numFrames c"
    and "7 / 50000 \<le> length3 w" and "j \<le> 50"
  shows "(\<exists>c1 ev g. flyCartesian inert P c t look up cb scb = Inr (c1, ev)
            \<and> getRayIntersectionEllipsoid P
                 \<lparr>origin = ZERO,
                  direction = normal (smerp (ground_a (fly_plan P c t look up))
                                            (ground_b (fly_plan P c t look up))
                                            (ease_d (numFrames c) i))\<rparr> = Some g
            \<and> f_eye (framesArr c1 ! i) =
                add g (scale (normal (smerp (ground_a (fly_plan P c t look up))
                                            (ground_b (fly_plan P c t look up))
                                            (ease_d (numFrames c) i)))
                             (fly_height (fly_plan P c t look up) (ease_d (numFrames c) i))))
       \<and> 1 / 1000000 \<le> length3 (smerp w (negateTo w) (ease_d 50 j))"
proof -
  let ?c1 = "c\<lparr>flying := True, framesArr := planned_frames P c t look up,
            framesCounter := int (numFrames c), completeCallback := cb\<rparr>"
  have fly: "flyCartesian inert P c t look up cb scb
      = Inr (?c1, free_events (keyLock c) @ start_events scb)"
    by (rule flyCartesian_Inr[OF assms(1)])
  from planned_frame_eye[OF assms(1,2), of t look up]
  obtain g where g: "getRayIntersectionEllipsoid P
                 \<lparr>origin = ZERO,
                  direction = normal (smerp (ground_a (fly_plan P c t look up))
                                            (ground_b (fly_plan P c t look up))
                                            (ease_d (numFrames c) i))\<rparr> = Some g"
    "f_eye (framesArr ?c1 ! i) =
                add g (scale (normal (smerp (ground_a (fly_plan P c t look up))
                                            (ground_b (fly_plan P c t look up))
                                            (ease_d (numFrames c) i)))
                             (fly_height (fly_plan P c t look up) (ease_d (numFrames c) i)))"
    by auto
  from fly g antipodal_blend_bound[OF assms(3,4)] show ?thesis
    by blast
qed

lemma sphere_three_below:
  "cartesianToLonLat (sphere_planet 1) (Vec3 0 0 (- 3)) = LonLat 180 0 2"
  "lonLatToCartesian (sphere_planet 1) (LonLat 180 0 0) = Vec3 0 0 (- 1)"
  unfolding sphere_planet_def
  by (simp_all add: atan2_def LonLat_def length3_z DEGREES_def RADIANS_def del: length3.simps)

lemma flight_down_plan:
  "ground_a (fly_plan (sphere_planet 1) camera_at_rest (Vec3 0 0 (- 3)) None None) = Vec3 0 0 1"
  "ground_b (fly_plan (sphere_planet 1) camera_at_rest (Vec3 0 0 (- 3)) None None)
     = Vec3 0 0 (- 1)"
  using sphere_above_origin(2) sphere_three_below(2)
  by (simp_all add: fly_plan_fields camera_at_rest_lonLat sphere_three_below(1))
     (simp_all add: LonLat_def)

text \<open>
  The theorem on the unit sphere: frame 18 of the flight of the camera at rest to the
  antipodal point three radii from the centre.
\<close>

theorem planner_normalises_blend_witness:
  "hits (sphere_planet 1) \<and> (18::nat) \<le> numFrames camera_at_rest
   \<and> 7 / 50000 \<le> length3 (Vec3 0 0 1) \<and> (18::nat) \<le> 50
   \<and> (\<exists>c1 ev g. flyCartesian inert (sphere_planet 1) camera_at_rest (Vec3 0 0 (- 3))
                     None None None None = Inr (c1, ev)
            \<and> getRayIntersectionEllipsoid (sphere_planet 1)
                 \<lparr>origin = ZERO, direction = Vec3 0 0 (- 1)\<rparr> = Some g
            \<and> f_eye (framesArr c1 ! 18) =
                add g (scale (Vec3 0 0 (- 1))
                         (fly_height (fly_plan (sphere_planet 1) camera_at_rest (Vec3 0 0 (- 3))
                                        None None)
                            (121176064 / 244140625))))
   \<and> 1 / 1000000 \<le> length3 (smerp (Vec3 0 0 1) (negateTo (Vec3 0 0 1)) (ease_d 50 18))"
proof -
  have h2: "(18::nat) \<le> numFrames camera_at_rest"
    by (simp add: camera_at_rest_fields)
  have h3: "7 / 50000 \<le> length3 (Vec3 0 0 1)" by simp
  have h4: "(18::nat) \<le> 50" by simp
  have dir: "normal (smerp (Vec3 0 0 1) (Vec3 0 0 (- 1)) (121176064 / 244140625))
      = Vec3 0 0 (- 1)"
    by (simp add: normal_neg_z)
  have "(\<exists>c1 ev g. flyCartesian inert (sphere_planet 1) camera_at_rest (Vec3 0 0 (- 3))
                     None None None None = Inr (c1, ev)
            \<and> getRayIntersectionEllipsoid (sphere_planet 1)
                 \<lparr>origin = ZERO, direction = Vec3 0 0 (- 1)\<rparr> = Some g
            \<and> f_eye (framesArr c1 ! 18) =
                add g (scale (Vec3 0 0 (- 1))
                         (fly_height (fly_plan (sphere_planet 1) camera_at_rest (Vec3 0 0 (- 3))
                                        None None)
                            (121176064 / 244140625))))
   \<and> 1 / 1000000 \<le> length3 (smerp (Vec3 0 0 1) (negateTo (Vec3 0 0 1)) (ease_d 50 18))"
    using planner_normalises_blend[OF hits_sphere_planet[of 1] h2 h3 h4,
        where t="Vec3 0 0 (- 3)" and look=None and up=None and cb=None and scb=None]
    unfolding camera_at_rest_fields(2) flight_down_plan ease_d_50_18 dir .
  then show ?thesis
    using hits_sphere_planet[of 1] h2 h3 h4 by blast
qed

text \<open>
  Against C8 as stated (a blend of magnitude below the epsilon is detected and replaced
  by the bisected centre). On the sphere of radius \<open>1 / 10000\<close> the camera flies from
  longitude 0 to the antipodal point at longitude 180 with the default 50 frames. At
  frame 18 the blend of the two ground vectors has a magnitude below \<open>0.000001\<close>, and the
  frame is built on the normalised blend, the direction \<open>(0, 0, -1)\<close>: the eye of frame 18
  lies on the negative \<open>z\<close> axis. The check of \<^verbatim>\<open>getExtentPosition\<close>, for the extent
  between the same two points, replaces the vanishing centre by the point at the middle
  longitude 90.
\<close>

theorem antipodal_flight_blend_below_epsilon:
  "length3 (smerp (ground_a (fly_plan (sphere_planet (1 / 10000)) tiny_camera
                               (Vec3 0 0 (- (1 / 5000))) None None))
                  (ground_b (fly_plan (sphere_planet (1 / 10000)) tiny_camera
                               (Vec3 0 0 (- (1 / 5000))) None None))
                  (ease_d (numFrames tiny_camera) 18)) < 0.000001
   \<and> map_sum id (\<lambda>r. normal (f_eye (framesArr (fst r) ! 18)))
        (flyCartesian inert (sphere_planet (1 / 10000)) tiny_camera (Vec3 0 0 (- (1 / 5000)))
           None None None None) = Inr (Vec3 0 0 (- 1))
   \<and> fst (extent_center (sphere_planet (1 / 10000))
             \<lparr>getNorth = 0, getSouth = 0, getEast = 180, getWest = 0\<rparr>) = Vec3 (1 / 10000) 0 0"
proof -
  let ?P = "sphere_planet (1 / 10000)"
  let ?pl = "fly_plan ?P tiny_camera (Vec3 0 0 (- (1 / 5000))) None None"
  have n: "numFrames tiny_camera = 50"
    by (simp add: tiny_camera_def PlanetCamera_def Let_def)
  have blend: "smerp (ground_a ?pl) (ground_b ?pl) (ease_d 50 18)
      = Vec3 0 0 (- (1788497 / 2441406250000))"
    unfolding tiny_plan by (rule tiny_blend)
  have dir: "normal (smerp (ground_a ?pl) (ground_b ?pl) (ease_d 50 18)) = Vec3 0 0 (- 1)"
    unfolding blend by (rule normal_neg_z) simp
  have small: "length3 (smerp (ground_a ?pl) (ground_b ?pl) (ease_d 50 18)) < 0.000001"
    unfolding blend length3_z by simp
  let ?H = "height_a ?pl * ease_d 50 18 * ease_d 50 18 * ease_d 50 18
            + max_h ?pl * 3 * ease_d 50 18 * ease_d 50 18 * (1 - ease_d 50 18)
            + max_h ?pl * 3 * ease_d 50 18 * (1 - ease_d 50 18) * (1 - ease_d 50 18)
            + height_b ?pl * (1 - ease_d 50 18) * (1 - ease_d 50 18) * (1 - ease_d 50 18)"
  have H: "0 < ?H"
    unfolding tiny_plan
    by (rule bernstein_pos) (simp_all add: ease_d_50_18 tiny_max_h)
  have hit: "getRayIntersectionEllipsoid ?P
       \<lparr>origin = ZERO, direction = normal (smerp (ground_a ?pl) (ground_b ?pl) (ease_d 50 18))\<rparr>
      = Some (scale (Vec3 0 0 (- 1)) \<bar>1 / 10000\<bar>)"
    unfolding dir by (rule sphere_hit_centre)
  have "map_sum id f_eye (fly_frame ?P ?pl (ease_d 50 18))
      = Inr (add (scale (Vec3 0 0 (- 1)) \<bar>1 / 10000\<bar>) (scale (Vec3 0 0 (- 1)) ?H))"
    using fly_frame_eye[OF hit] unfolding dir .
  moreover have "normal (add (scale (Vec3 0 0 (- 1)) \<bar>1 / 10000\<bar>) (scale (Vec3 0 0 (- 1)) ?H))
      = Vec3 0 0 (- 1)"
    using H by (simp add: normal_neg_z del: length3.simps)
  ultimately have fr: "map_sum id (\<lambda>f. normal (f_eye f)) (fly_frame ?P ?pl (ease_d 50 18))
      = Inr (Vec3 0 0 (- 1))"
    by (cases "fly_frame ?P ?pl (ease_d 50 18)") auto
  have nth: "planned_frames ?P tiny_camera (Vec3 0 0 (- (1 / 5000))) None None ! 18
      = projr (fly_frame ?P ?pl (ease_d 50 18))"
    using planned_frames_nth[of 18 tiny_camera ?P] by (simp add: n)
  have code: "map_sum id (\<lambda>r. normal (f_eye (framesArr (fst r) ! 18)))
        (flyCartesian inert ?P tiny_camera (Vec3 0 0 (- (1 / 5000))) None None None None)
      = Inr (Vec3 0 0 (- 1))"
    using fr by (cases "fly_frame ?P ?pl (ease_d 50 18)")
      (auto simp: flyCartesian_Inr[OF hits_sphere_planet] nth)
  have sib: "fst (extent_center ?P \<lparr>getNorth = 0, getSouth = 0, getEast = 180, getWest = 0\<rparr>)
      = Vec3 (1 / 10000) 0 0"
    using tiny_grounds
    by (simp add: extent_center_def Let_def LonLat_def)
  show ?thesis
    unfolding n using small code sib by blast
qed

end
